theory Spec2Isabelle
  imports Complex_Main "HOL-Library.Product_Lexorder"
begin

section \<open>Preliminaries\<close>

subsection \<open>C++ integer arithmetic\<close>

text \<open>
  C++ \<open>int\<close> values are modelled as HOL integers within the 32-bit range. The one
  addition of the modelled code that can leave that range, \<open>nostate + 9999\<close> in
  \<open>metastable_id\<close>, is guarded: signed overflow has no defined behaviour. \<open>/\<close> and
  \<open>%\<close> truncate toward zero, unlike HOL's \<open>div\<close> and \<open>mod\<close>.
  A \<open>double\<close> is modelled as a real number: the accessors only store, copy and compare
  such values (rounding and NaN are not modelled).
\<close>

definition INT_MAX :: int where
  "INT_MAX = 2147483647"

definition c_div :: "int \<Rightarrow> int \<Rightarrow> int" where
  "c_div a b = sgn a * sgn b * (\<bar>a\<bar> div \<bar>b\<bar>)"

definition c_mod :: "int \<Rightarrow> int \<Rightarrow> int" where
  "c_mod a b = a - c_div a b * b"

text \<open>Conversion of a wider integer constant to a 32-bit \<open>int\<close> (two's complement).\<close>

definition int_wrap32 :: "int \<Rightarrow> int" where
  "int_wrap32 x = (x + 2147483648) mod 4294967296 - 2147483648"

subsection \<open>Load errors\<close>

datatype load_error = FileNotFound | FileNotHDF5

subsection \<open>\<open>std::map\<close> as an association list in ascending key order\<close>

text \<open>
  \<open>map_of m k\<close> is \<open>m.find(k)\<close>, \<open>m = []\<close> is \<open>m.empty()\<close>, \<open>map_assign k v m\<close> is
  \<open>m[k] = v\<close>. An iterator is the suffix of the list that starts at its position, so
  \<open>m\<close> itself is \<open>m.begin()\<close> and \<open>[]\<close> is \<open>m.end()\<close>.
\<close>

fun map_assign :: "'k::linorder \<Rightarrow> 'v \<Rightarrow> ('k \<times> 'v) list \<Rightarrow> ('k \<times> 'v) list" where
  "map_assign k v [] = [(k, v)]"
| "map_assign k v ((k', v') # m) =
     (if k < k' then (k, v) # (k', v') # m
      else if k = k' then (k, v) # m
      else (k', v') # map_assign k v m)"

definition lower_bound :: "'k::linorder \<Rightarrow> ('k \<times> 'v) list \<Rightarrow> ('k \<times> 'v) list" where
  "lower_bound k m = dropWhile (\<lambda>e. fst e < k) m"

definition upper_bound :: "'k::linorder \<Rightarrow> ('k \<times> 'v) list \<Rightarrow> ('k \<times> 'v) list" where
  "upper_bound k m = dropWhile (\<lambda>e. fst e \<le> k) m"

text \<open>
  The entries visited by \<open>for (it = first; it != last; ++it)\<close>, both iterators being
  positions of one map. When \<open>last\<close> lies before \<open>first\<close> the loop steps past \<open>end()\<close>,
  which has no defined behaviour: \<open>None\<close>.
\<close>

definition iter_range :: "'a list \<Rightarrow> 'a list \<Rightarrow> 'a list option" where
  "iter_range it_first it_last =
     (if length it_last \<le> length it_first
      then Some (take (length it_first - length it_last) it_first)
      else None)"

definition sorted_keys :: "('k::linorder \<times> 'v) list \<Rightarrow> bool" where
  "sorted_keys m = sorted_wrt (<) (map fst m)"

section \<open>Data model\<close>

subsection \<open>Records of the reference dataset\<close>

text \<open>
  The field lists are those of the HDF5 table descriptions in the loaders. Field names
  carry a prefix per struct, since several structs share names (\<open>half_life\<close>,
  \<open>branch_ratio\<close>, \<open>from_nuc\<close>, ...) with each other and with the accessors.
\<close>

record complex_t =
  re :: real
  im :: real

record atomic_mass_struct =
  am_nuc :: int
  am_mass :: real
  am_error :: real
  am_abund :: real

record scattering_lengths_struct =
  sl_nuc :: int
  sl_b_coherent :: complex_t
  sl_b_incoherent :: complex_t
  sl_xs_coherent :: real
  sl_xs_incoherent :: real
  sl_xs :: real

record wimsdfpy_struct =
  wf_from_nuc :: int
  wf_to_nuc :: int
  wf_yields :: real

record ndsfpy_struct =
  nf_from_nuc :: int
  nf_to_nuc :: int
  nf_yield_thermal :: real
  nf_yield_thermal_err :: real
  nf_yield_fast :: real
  nf_yield_fast_err :: real
  nf_yield_14MeV :: real
  nf_yield_14MeV_err :: real

record ndsfpysub_struct =
  yield_thermal :: real
  yield_thermal_err :: real
  yield_fast :: real
  yield_fast_err :: real
  yield_14MeV :: real
  yield_14MeV_err :: real

record half_life_decay_struct =
  hl_from_nuc :: int
  hl_level :: real
  hl_to_nuc :: int
  hl_half_life :: real
  hl_decay_const :: real
  hl_branch_ratio :: real

record level_struct =
  lv_nuc_id :: int
  lv_level :: real
  lv_half_life :: real
  lv_metastable :: real

record decay_struct =
  dk_parent :: int
  dk_daughter :: int
  dk_decay :: string
  dk_half_life :: real
  dk_half_life_error :: real
  dk_branch_ratio :: real
  dk_photon_branch_ratio :: real
  dk_photon_branch_ratio_error :: real
  dk_beta_branch_ratio :: real
  dk_beta_branch_ratio_error :: real

record gamma_struct =
  gm_energy :: real
  gm_energy_err :: real
  gm_photon_intensity :: real
  gm_photon_intensity_err :: real
  gm_conv_intensity :: real
  gm_conv_intensity_err :: real
  gm_total_intensity :: real
  gm_total_intensity_err :: real
  gm_from_nuc :: int
  gm_to_nuc :: int
  gm_parent_nuc :: int
  gm_k_conv_e :: real
  gm_l_conv_e :: real
  gm_m_conv_e :: real

subsection \<open>The dataset file\<close>

text \<open>
  The file at \<open>NUC_DATA_PATH\<close>: whether it exists, whether it is an HDF5 file, and the
  rows of each table in file order.
\<close>

record nuc_data =
  file_exists :: bool
  is_hdf5 :: bool
  atomic_mass_table :: "atomic_mass_struct list"
  scattering_lengths_table :: "scattering_lengths_struct list"
  wimsd_fission_products_table :: "wimsdfpy_struct list"
  nds_fission_products_table :: "ndsfpy_struct list"
  half_life_table :: "half_life_decay_struct list"
  level_list_table :: "level_struct list"
  decays_table :: "decay_struct list"
  gammas_table :: "gamma_struct list"

subsection \<open>The process-wide cache tables\<close>

record caches =
  atomic_mass_map :: "(int \<times> real) list"
  natural_abund_map :: "(int \<times> real) list"
  b_coherent_map :: "(int \<times> complex_t) list"
  b_incoherent_map :: "(int \<times> complex_t) list"
  wimsdfpy_data :: "((int \<times> int) \<times> real) list"
  ndsfpy_data :: "((int \<times> int) \<times> ndsfpysub_struct) list"
  half_life_map :: "(int \<times> real) list"
  decay_const_map :: "(int \<times> real) list"
  branch_ratio_map :: "((int \<times> int) \<times> real) list"
  state_energy_map :: "(int \<times> real) list"
  decay_children_map :: "(int \<times> int set) list"
  level_data :: "(int \<times> level_struct) list"
  decay_data :: "((int \<times> int) \<times> decay_struct) list"
  gamma_data :: "((int \<times> real) \<times> gamma_struct) list"

definition empty_caches :: caches where
  "empty_caches =
     \<lparr>atomic_mass_map = [], natural_abund_map = [], b_coherent_map = [],
      b_incoherent_map = [], wimsdfpy_data = [], ndsfpy_data = [], half_life_map = [],
      decay_const_map = [], branch_ratio_map = [], state_energy_map = [],
      decay_children_map = [], level_data = [], decay_data = [], gamma_data = []\<rparr>"

subsection \<open>The nuclide identifier service\<close>

text \<open>
  \<open>nucname::id\<close>, \<open>nucname::znum\<close> and \<open>nucname::anum\<close> are not part of this module;
  they are parameters of the accessors that call them.
\<close>

record nucname =
  nucname_id :: "int \<Rightarrow> int"
  nucname_znum :: "int \<Rightarrow> int"
  nucname_anum :: "int \<Rightarrow> int"

section \<open>Loaders\<close>

text \<open>
  Every loader first checks the file and throws before touching any table; then it
  copies the rows into the tables in file order. The loaders are named as in the
  source without the leading underscore; \<open>load_data_decay\<close> and \<open>load_data_gamma\<close>
  are the specialisations of the template \<open>_load_data\<close>.
\<close>

definition check_file :: "nuc_data \<Rightarrow> load_error option" where
  "check_file ds =
     (if \<not> file_exists ds then Some FileNotFound
      else if \<not> is_hdf5 ds then Some FileNotHDF5
      else None)"

definition load_atomic_mass_map :: "nuc_data \<Rightarrow> caches \<Rightarrow> load_error + caches" where
  "load_atomic_mass_map ds st =
     (case check_file ds of
        Some e \<Rightarrow> Inl e
      | None \<Rightarrow>
          Inr (foldl (\<lambda>s r. s\<lparr>atomic_mass_map := map_assign (am_nuc r) (am_mass r) (atomic_mass_map s),
                               natural_abund_map := map_assign (am_nuc r) (am_abund r) (natural_abund_map s)\<rparr>)
                 st (atomic_mass_table ds)))"

definition load_scattering_lengths :: "nuc_data \<Rightarrow> caches \<Rightarrow> load_error + caches" where
  "load_scattering_lengths ds st =
     (case check_file ds of
        Some e \<Rightarrow> Inl e
      | None \<Rightarrow>
          Inr (foldl (\<lambda>s r. s\<lparr>b_coherent_map := map_assign (sl_nuc r) (sl_b_coherent r) (b_coherent_map s),
                               b_incoherent_map := map_assign (sl_nuc r) (sl_b_incoherent r) (b_incoherent_map s)\<rparr>)
                 st (scattering_lengths_table ds)))"

definition load_wimsdfpy :: "nuc_data \<Rightarrow> caches \<Rightarrow> load_error + caches" where
  "load_wimsdfpy ds st =
     (case check_file ds of
        Some e \<Rightarrow> Inl e
      | None \<Rightarrow>
          Inr (foldl (\<lambda>s r. s\<lparr>wimsdfpy_data :=
                                 map_assign (wf_from_nuc r, wf_to_nuc r) (wf_yields r) (wimsdfpy_data s)\<rparr>)
                 st (wimsd_fission_products_table ds)))"

definition ndsfpysub_temp :: "ndsfpy_struct \<Rightarrow> ndsfpysub_struct" where
  "ndsfpysub_temp r =
     \<lparr>yield_thermal = nf_yield_thermal r, yield_thermal_err = nf_yield_thermal_err r,
      yield_fast = nf_yield_fast r, yield_fast_err = nf_yield_fast_err r,
      yield_14MeV = nf_yield_14MeV r, yield_14MeV_err = nf_yield_14MeV_err r\<rparr>"

definition load_ndsfpy :: "nuc_data \<Rightarrow> caches \<Rightarrow> load_error + caches" where
  "load_ndsfpy ds st =
     (case check_file ds of
        Some e \<Rightarrow> Inl e
      | None \<Rightarrow>
          Inr (foldl (\<lambda>s r. s\<lparr>ndsfpy_data :=
                                 map_assign (nf_from_nuc r, nf_to_nuc r) (ndsfpysub_temp r) (ndsfpy_data s)\<rparr>)
                 st (nds_fission_products_table ds)))"

text \<open>One row of \<open>/decay/half_life\<close>: ground-state rows, or those seen first, win.\<close>

definition half_life_decay_row :: "caches \<Rightarrow> half_life_decay_struct \<Rightarrow> caches" where
  "half_life_decay_row st r =
     (let from_nuc = hl_from_nuc r;
          level = hl_level r;
          to_nuc = hl_to_nuc r;
          from_to = (from_nuc, to_nuc);
          st1 = (if map_of (half_life_map st) from_nuc = None \<or> 0 = level
                 then st\<lparr>half_life_map := map_assign from_nuc (hl_half_life r) (half_life_map st)\<rparr>
                 else st);
          st2 = (if map_of (decay_const_map st1) from_nuc = None \<or> 0 = level
                 then st1\<lparr>decay_const_map := map_assign from_nuc (hl_decay_const r) (decay_const_map st1)\<rparr>
                 else st1);
          st3 = (if map_of (branch_ratio_map st2) from_to = None \<or> 0 = level
                 then st2\<lparr>branch_ratio_map := map_assign from_to (hl_branch_ratio r) (branch_ratio_map st2)\<rparr>
                 else st2);
          st4 = st3\<lparr>state_energy_map := map_assign from_nuc level (state_energy_map st3)\<rparr>
      in if 0 \<noteq> hl_decay_const r
         then st4\<lparr>decay_children_map :=
                    map_assign from_nuc
                      (insert to_nuc (case map_of (decay_children_map st4) from_nuc of
                                        None \<Rightarrow> {} | Some children \<Rightarrow> children))
                      (decay_children_map st4)\<rparr>
         else st4)"

definition load_half_life_decay :: "nuc_data \<Rightarrow> caches \<Rightarrow> load_error + caches" where
  "load_half_life_decay ds st =
     (case check_file ds of
        Some e \<Rightarrow> Inl e
      | None \<Rightarrow> Inr (foldl half_life_decay_row st (half_life_table ds)))"

definition load_level_data :: "nuc_data \<Rightarrow> caches \<Rightarrow> load_error + caches" where
  "load_level_data ds st =
     (case check_file ds of
        Some e \<Rightarrow> Inl e
      | None \<Rightarrow>
          Inr (foldl (\<lambda>s r. s\<lparr>level_data := map_assign (lv_nuc_id r) r (level_data s)\<rparr>)
                 st (level_list_table ds)))"

text \<open>\<open>_load_data<decay_struct>\<close> and \<open>_load_data<gamma_struct>\<close>.\<close>

definition load_data_decay :: "nuc_data \<Rightarrow> caches \<Rightarrow> load_error + caches" where
  "load_data_decay ds st =
     (case check_file ds of
        Some e \<Rightarrow> Inl e
      | None \<Rightarrow>
          Inr (foldl (\<lambda>s r. s\<lparr>decay_data := map_assign (dk_parent r, dk_daughter r) r (decay_data s)\<rparr>)
                 st (decays_table ds)))"

definition load_data_gamma :: "nuc_data \<Rightarrow> caches \<Rightarrow> load_error + caches" where
  "load_data_gamma ds st =
     (case check_file ds of
        Some e \<Rightarrow> Inl e
      | None \<Rightarrow>
          Inr (foldl (\<lambda>s r. s\<lparr>gamma_data := map_assign (gm_parent_nuc r, gm_energy r) r (gamma_data s)\<rparr>)
                 st (gammas_table ds)))"

section \<open>Accessors\<close>

text \<open>
  An accessor takes the dataset file and the cache tables and returns its value with the
  updated tables. Results are options: \<open>None\<close> stands for a call that does not
  return (unbounded recursion) or has no defined behaviour. Accessors that can throw
  return \<open>Inl\<close> of the load error; the loaders throw before changing any table, so
  a throw carries no table update.
\<close>

subsection \<open>Atomic mass and natural abundance\<close>

partial_function (option) atomic_mass ::
  "nucname \<Rightarrow> nuc_data \<Rightarrow> caches \<Rightarrow> int \<Rightarrow> (real \<times> caches) option" where
  "atomic_mass nn ds st nuc =
     (case map_of (atomic_mass_map st) nuc of
        Some mass \<Rightarrow> Some (mass, st)
      | None \<Rightarrow>
         (case (if atomic_mass_map st = []
                then (case load_atomic_mass_map ds st of Inr st' \<Rightarrow> Some st' | Inl e \<Rightarrow> None)
                else None) of
            Some st' \<Rightarrow> atomic_mass nn ds st' nuc
          | None \<Rightarrow>
             (let nucid = nucname_id nn nuc in
              if 0 < c_mod nucid 10000 then
                Option.bind (atomic_mass nn ds st (c_div nucid 10000 * 10000))
                  (\<lambda>(aw, st1). Some (aw, st1\<lparr>atomic_mass_map := map_assign nuc aw (atomic_mass_map st1)\<rparr>))
              else
                (let aw = real_of_int (c_mod (c_div nucid 10000) 1000)
                 in Some (aw, st\<lparr>atomic_mass_map := map_assign nuc aw (atomic_mass_map st)\<rparr>)))))"

partial_function (option) natural_abund ::
  "nucname \<Rightarrow> nuc_data \<Rightarrow> caches \<Rightarrow> int \<Rightarrow> (real \<times> caches) option" where
  "natural_abund nn ds st nuc =
     (case map_of (natural_abund_map st) nuc of
        Some abund \<Rightarrow> Some (abund, st)
      | None \<Rightarrow>
         (case (if natural_abund_map st = []
                then (case load_atomic_mass_map ds st of Inr st' \<Rightarrow> Some st' | Inl e \<Rightarrow> None)
                else None) of
            Some st' \<Rightarrow> natural_abund nn ds st' nuc
          | None \<Rightarrow>
             (let nucid = nucname_id nn nuc in
              if 0 < c_mod nucid 10000 then
                Option.bind (natural_abund nn ds st (c_div nucid 10000 * 10000))
                  (\<lambda>(na, st1). Some (na, st1\<lparr>atomic_mass_map := map_assign nuc na (atomic_mass_map st1)\<rparr>))
              else
                (let na = 0
                 in Some (na, st\<lparr>natural_abund_map := map_assign nuc na (natural_abund_map st)\<rparr>)))))"

subsection \<open>Coherent scattering length\<close>

text \<open>The two \<open>while\<close> loops of \<open>b_coherent\<close>: the first entry, from \<open>begin()\<close> on, whose key passes the test.\<close>

fun scan_match :: "(int \<Rightarrow> bool) \<Rightarrow> (int \<times> 'v) list \<Rightarrow> 'v option" where
  "scan_match test [] = None"
| "scan_match test (e # nuc_iter) = (if test (fst e) then Some (snd e) else scan_match test nuc_iter)"

partial_function (option) b_coherent ::
  "nucname \<Rightarrow> nuc_data \<Rightarrow> caches \<Rightarrow> int \<Rightarrow> (load_error + complex_t \<times> caches) option" where
  "b_coherent nn ds st nuc =
     (case map_of (b_coherent_map st) nuc of
        Some bc \<Rightarrow> Some (Inr (bc, st))
      | None \<Rightarrow>
         if b_coherent_map st = [] then
           (case load_scattering_lengths ds st of
              Inl e \<Rightarrow> Some (Inl e)
            | Inr st' \<Rightarrow> b_coherent nn ds st' nuc)
         else
           (let nucid = nucname_id nn nuc;
                znum = nucname_znum nn nucid;
                anum = nucname_anum nn nucid;
                bc = (case scan_match (\<lambda>k. anum = nucname_anum nn k) (b_coherent_map st) of
                        Some bc \<Rightarrow> bc
                      | None \<Rightarrow>
                         (case scan_match (\<lambda>k. znum = nucname_znum nn k) (b_coherent_map st) of
                            Some bc \<Rightarrow> bc
                          | None \<Rightarrow> \<lparr>re = 0, im = 0\<rparr>))
            in Some (Inr (bc, st\<lparr>b_coherent_map := map_assign nuc bc (b_coherent_map st)\<rparr>))))"

subsection \<open>Fission product yields\<close>

partial_function (option) fpyield ::
  "nuc_data \<Rightarrow> caches \<Rightarrow> int \<times> int \<Rightarrow> int \<Rightarrow> bool \<Rightarrow> (load_error + real \<times> caches) option" where
  "fpyield ds st from_to source get_error =
     (case (if source = 0 then map_of (wimsdfpy_data st) from_to
            else (case map_of (ndsfpy_data st) from_to of
                    None \<Rightarrow> None
                  | Some r \<Rightarrow>
                      if source = 1 then Some (if get_error then yield_thermal_err r else yield_thermal r)
                      else if source = 2 then Some (if get_error then yield_fast_err r else yield_fast r)
                      else if source = 3 then Some (if get_error then yield_14MeV_err r else yield_14MeV r)
                      else None)) of
        Some y \<Rightarrow> Some (Inr (y, st))
      | None \<Rightarrow>
          if source = 0 \<and> wimsdfpy_data st = [] then
            (case load_wimsdfpy ds st of
               Inl e \<Rightarrow> Some (Inl e)
             | Inr st' \<Rightarrow> fpyield ds st' from_to 0 get_error)
          else if ndsfpy_data st = [] then
            (case load_ndsfpy ds st of
               Inl e \<Rightarrow> Some (Inl e)
             | Inr st' \<Rightarrow> fpyield ds st' from_to source get_error)
          else
            (let fpy = 0
             in Some (Inr (fpy, st\<lparr>wimsdfpy_data := map_assign from_to fpy (wimsdfpy_data st)\<rparr>))))"

subsection \<open>Decay constants, branch ratios, decay children\<close>

partial_function (option) decay_const ::
  "nuc_data \<Rightarrow> caches \<Rightarrow> int \<Rightarrow> (load_error + real \<times> caches) option" where
  "decay_const ds st nuc =
     (case map_of (decay_const_map st) nuc of
        Some dc \<Rightarrow> Some (Inr (dc, st))
      | None \<Rightarrow>
          if decay_const_map st = [] then
            (case load_half_life_decay ds st of
               Inl e \<Rightarrow> Some (Inl e)
             | Inr st' \<Rightarrow> decay_const ds st' nuc)
          else
            (let dc = 0
             in Some (Inr (dc, st\<lparr>decay_const_map := map_assign nuc dc (decay_const_map st)\<rparr>))))"

partial_function (option) branch_ratio ::
  "nuc_data \<Rightarrow> caches \<Rightarrow> int \<times> int \<Rightarrow> (load_error + real \<times> caches) option" where
  "branch_ratio ds st from_to =
     (case map_of (branch_ratio_map st) from_to of
        Some br \<Rightarrow> Some (Inr (br, st))
      | None \<Rightarrow>
          if branch_ratio_map st = [] then
            (case load_half_life_decay ds st of
               Inl e \<Rightarrow> Some (Inl e)
             | Inr st' \<Rightarrow> branch_ratio ds st' from_to)
          else
            (let br = 0
             in Some (Inr (br, st\<lparr>branch_ratio_map := map_assign from_to br (branch_ratio_map st)\<rparr>))))"

partial_function (option) decay_children ::
  "nuc_data \<Rightarrow> caches \<Rightarrow> int \<Rightarrow> (load_error + int set \<times> caches) option" where
  "decay_children ds st nuc =
     (case map_of (decay_children_map st) nuc of
        Some children \<Rightarrow> Some (Inr (children, st))
      | None \<Rightarrow>
          if decay_children_map st = [] then
            (case load_half_life_decay ds st of
               Inl e \<Rightarrow> Some (Inl e)
             | Inr st' \<Rightarrow> decay_children ds st' nuc)
          else
            (let dc = {}
             in Some (Inr (dc, st\<lparr>decay_children_map := map_assign nuc dc (decay_children_map st)\<rparr>))))"

subsection \<open>Level data: metastable ids, state energy, half life\<close>

text \<open>
  The \<open>for\<close> loop of \<open>metastable_id\<close> over the visited entries. In \<open>metastable_id\<close>
  the upper bound \<open>nostate + 9999\<close> overflows for ids within 9999 of \<open>INT_MAX\<close>: no
  defined result.
\<close>

fun metastable_scan :: "int \<Rightarrow> (int \<times> level_struct) list \<Rightarrow> int" where
  "metastable_scan m [] = 0"
| "metastable_scan m (it # its) =
     (if lv_metastable (snd it) = real_of_int m then lv_nuc_id (snd it)
      else metastable_scan m its)"

definition metastable_id ::
  "nuc_data \<Rightarrow> caches \<Rightarrow> int \<Rightarrow> int \<Rightarrow> (load_error + int \<times> caches) option" where
  "metastable_id ds st nuc m =
     (if m = 0 then Some (Inr (0, st))
      else
        (let nostate = c_div nuc 1000 * 1000 in
         case (if level_data st = [] then load_level_data ds st else Inr st) of
           Inl e \<Rightarrow> Some (Inl e)
         | Inr st' \<Rightarrow>
            if INT_MAX < nostate + 9999 then None
            else
              (let nuc_lower = lower_bound nostate (level_data st');
                   nuc_upper = upper_bound (nostate + 9999) (level_data st')
               in case iter_range nuc_lower nuc_upper of
                    None \<Rightarrow> None
                  | Some its \<Rightarrow> Some (Inr (metastable_scan m its, st')))))"

text \<open>
  In \<open>state_energy\<close> the value of the recursive call after the load is dropped; the
  call still has to return, and its table updates and its throw stay.
\<close>

partial_function (option) state_energy ::
  "nuc_data \<Rightarrow> caches \<Rightarrow> int \<Rightarrow> (load_error + real \<times> caches) option" where
  "state_energy ds st nuc =
     (case map_of (level_data st) nuc of
        Some r \<Rightarrow> Some (Inr (lv_level r, st))
      | None \<Rightarrow>
          if level_data st = [] then
            (case load_level_data ds st of
               Inl e \<Rightarrow> Some (Inl e)
             | Inr st' \<Rightarrow>
                 Option.bind (state_energy ds st' nuc)
                   (\<lambda>res. case res of
                             Inl e \<Rightarrow> Some (Inl e)
                           | Inr (dropped, st'') \<Rightarrow> Some (Inr (0, st''))))
          else Some (Inr (0, st)))"

partial_function (option) half_life ::
  "nuc_data \<Rightarrow> caches \<Rightarrow> int \<Rightarrow> (load_error + real \<times> caches) option" where
  "half_life ds st nuc =
     (case map_of (level_data st) nuc of
        Some r \<Rightarrow> Some (Inr (lv_half_life r, st))
      | None \<Rightarrow>
          if level_data st = [] then
            (case load_level_data ds st of
               Inl e \<Rightarrow> Some (Inl e)
             | Inr st' \<Rightarrow> half_life ds st' nuc)
          else Some (Inr (0, st)))"

subsection \<open>Range queries: decay and gamma data\<close>

text \<open>
  The \<open>data_access\<close> templates for the queries by parent. The template arguments
  appear as parameters: \<open>load_data\<close> is \<open>_load_data<U>\<close>, \<open>data\<close> selects the table
  passed by reference, and \<open>valoffset\<close>, a byte offset into the record in the source,
  is the selector of the field at that offset.

  Over \<open>std::map<std::pair<int, int>, U>\<close> the bounds are \<open>(parent, 0)\<close> and
  \<open>(parent, 9999999999)\<close>, the latter constant converted to \<open>int\<close>. The loop body reads
  \<open>nuc_iter->second\<close>, the entry at the lower bound, on every round.
\<close>

partial_function (option) data_access_parent_int ::
  "(nuc_data \<Rightarrow> caches \<Rightarrow> load_error + caches) \<Rightarrow> (caches \<Rightarrow> ((int \<times> int) \<times> 'u) list) \<Rightarrow>
   nuc_data \<Rightarrow> caches \<Rightarrow> int \<Rightarrow> ('u \<Rightarrow> 't) \<Rightarrow> (load_error + 't list \<times> caches) option" where
  "data_access_parent_int load_data data ds st parent valoffset =
     (let nuc_iter = lower_bound (parent, 0) (data st);
          nuc_end = upper_bound (parent, int_wrap32 9999999999) (data st)
      in case iter_range nuc_iter nuc_end of
           None \<Rightarrow> None
         | Some its \<Rightarrow>
            (let result = map (\<lambda>it. valoffset (snd (hd nuc_iter))) its
             in if data st = [] then
                  (case load_data ds st of
                     Inl e \<Rightarrow> Some (Inl e)
                   | Inr st' \<Rightarrow> data_access_parent_int load_data data ds st' parent valoffset)
                else Some (Inr (result, st))))"

text \<open>
  Over \<open>std::map<std::pair<int, double>, U>\<close> the bounds are built as
  \<open>std::make_pair(0, parent)\<close> and \<open>std::make_pair(DBL_MAX, parent)\<close> and converted to
  the key type, so the parent lands in the second component. The conversion of
  \<open>DBL_MAX\<close> to \<open>int\<close> is out of range and its result is not defined by the language:
  it is the parameter \<open>int_DBL_MAX\<close>.
\<close>

partial_function (option) data_access_parent_double ::
  "int \<Rightarrow> (nuc_data \<Rightarrow> caches \<Rightarrow> load_error + caches) \<Rightarrow> (caches \<Rightarrow> ((int \<times> real) \<times> 'u) list) \<Rightarrow>
   nuc_data \<Rightarrow> caches \<Rightarrow> int \<Rightarrow> ('u \<Rightarrow> 't) \<Rightarrow> (load_error + 't list \<times> caches) option" where
  "data_access_parent_double int_DBL_MAX load_data data ds st parent valoffset =
     (let nuc_iter = lower_bound (0, real_of_int parent) (data st);
          nuc_end = upper_bound (int_DBL_MAX, real_of_int parent) (data st)
      in case iter_range nuc_iter nuc_end of
           None \<Rightarrow> None
         | Some its \<Rightarrow>
            (let result = map (\<lambda>it. valoffset (snd (hd nuc_iter))) its
             in if data st = [] then
                  (case load_data ds st of
                     Inl e \<Rightarrow> Some (Inl e)
                   | Inr st' \<Rightarrow>
                       data_access_parent_double int_DBL_MAX load_data data ds st' parent valoffset)
                else Some (Inr (result, st))))"

text \<open>
  The loop \<open>for (i = 0; i < part1.size(); ++i) result.push_back(make_pair(part1[i], part2[i]))\<close>;
  reading \<open>part2\<close> past its end has no defined behaviour.
\<close>

definition pair_up :: "'a list \<Rightarrow> 'b list \<Rightarrow> ('a \<times> 'b) list option" where
  "pair_up part1 part2 =
     (if length part1 \<le> length part2
      then Some (map (\<lambda>i. (part1 ! i, part2 ! i)) [0 ..< length part1])
      else None)"

definition decay_half_lifes ::
  "nuc_data \<Rightarrow> caches \<Rightarrow> int \<Rightarrow> (load_error + (real \<times> real) list \<times> caches) option" where
  "decay_half_lifes ds st parent =
     (case data_access_parent_int load_data_decay decay_data ds st parent dk_half_life of
        None \<Rightarrow> None
      | Some (Inl e) \<Rightarrow> Some (Inl e)
      | Some (Inr (part1, st1)) \<Rightarrow>
         (case data_access_parent_int load_data_decay decay_data ds st1 parent dk_half_life_error of
            None \<Rightarrow> None
          | Some (Inl e) \<Rightarrow> Some (Inl e)
          | Some (Inr (part2, st2)) \<Rightarrow>
              map_option (\<lambda>result. Inr (result, st2)) (pair_up part1 part2)))"

definition decay_branch_ratios ::
  "nuc_data \<Rightarrow> caches \<Rightarrow> int \<Rightarrow> (load_error + real list \<times> caches) option" where
  "decay_branch_ratios ds st parent =
     data_access_parent_int load_data_decay decay_data ds st parent dk_half_life"

definition gamma_energy ::
  "int \<Rightarrow> nuc_data \<Rightarrow> caches \<Rightarrow> int \<Rightarrow> (load_error + (real \<times> real) list \<times> caches) option" where
  "gamma_energy int_DBL_MAX ds st parent =
     (case data_access_parent_double int_DBL_MAX load_data_gamma gamma_data ds st parent gm_energy of
        None \<Rightarrow> None
      | Some (Inl e) \<Rightarrow> Some (Inl e)
      | Some (Inr (part1, st1)) \<Rightarrow>
         (case data_access_parent_double int_DBL_MAX load_data_gamma gamma_data ds st1 parent gm_energy_err of
            None \<Rightarrow> None
          | Some (Inl e) \<Rightarrow> Some (Inl e)
          | Some (Inr (part2, st2)) \<Rightarrow>
              map_option (\<lambda>result. Inr (result, st2)) (pair_up part1 part2)))"

section \<open>Example data\<close>

text \<open>
  An instance of the identifier service for the examples: identifiers are already
  canonical and carry the digits ZZZAAASSSS.
\<close>

definition example_nucname :: nucname where
  "example_nucname =
     \<lparr>nucname_id = (\<lambda>nuc. nuc),
      nucname_znum = (\<lambda>nuc. c_div nuc 10000000),
      nucname_anum = (\<lambda>nuc. c_mod (c_div nuc 10000) 1000)\<rparr>"

definition example_levels :: "level_struct list" where
  "example_levels =
     [\<lparr>lv_nuc_id = 922350000, lv_level = 0, lv_half_life = 22216075000000000, lv_metastable = 0\<rparr>,
      \<lparr>lv_nuc_id = 922350001, lv_level = 3 / 2, lv_half_life = 1560, lv_metastable = 1\<rparr>,
      \<lparr>lv_nuc_id = 922360000, lv_level = 0, lv_half_life = 739063200000000, lv_metastable = 0\<rparr>,
      \<lparr>lv_nuc_id = 922360005, lv_level = 5 / 2, lv_half_life = 1 / 10, lv_metastable = 1\<rparr>]"

definition example_gammas :: "gamma_struct list" where
  "example_gammas =
     [\<lparr>gm_energy = 1173228 / 1000, gm_energy_err = 3 / 1000,
       gm_photon_intensity = 9985 / 100, gm_photon_intensity_err = 3 / 100,
       gm_conv_intensity = 0, gm_conv_intensity_err = 0,
       gm_total_intensity = 9985 / 100, gm_total_intensity_err = 3 / 100,
       gm_from_nuc = 280600003, gm_to_nuc = 280600001, gm_parent_nuc = 270600000,
       gm_k_conv_e = 0, gm_l_conv_e = 0, gm_m_conv_e = 0\<rparr>,
      \<lparr>gm_energy = 1332492 / 1000, gm_energy_err = 4 / 1000,
       gm_photon_intensity = 999826 / 10000, gm_photon_intensity_err = 6 / 10000,
       gm_conv_intensity = 0, gm_conv_intensity_err = 0,
       gm_total_intensity = 999826 / 10000, gm_total_intensity_err = 6 / 10000,
       gm_from_nuc = 280600001, gm_to_nuc = 280600000, gm_parent_nuc = 270600000,
       gm_k_conv_e = 0, gm_l_conv_e = 0, gm_m_conv_e = 0\<rparr>]"

definition example_decays :: "decay_struct list" where
  "example_decays =
     [\<lparr>dk_parent = 551370000, dk_daughter = 561370000, dk_decay = ''B-'',
       dk_half_life = 949252608, dk_half_life_error = 2840184, dk_branch_ratio = 56 / 1000,
       dk_photon_branch_ratio = 0, dk_photon_branch_ratio_error = 0,
       dk_beta_branch_ratio = 1, dk_beta_branch_ratio_error = 0\<rparr>,
      \<lparr>dk_parent = 551370000, dk_daughter = 561370001, dk_decay = ''B-'',
       dk_half_life = 949252609, dk_half_life_error = 2840185, dk_branch_ratio = 944 / 1000,
       dk_photon_branch_ratio = 0, dk_photon_branch_ratio_error = 0,
       dk_beta_branch_ratio = 1, dk_beta_branch_ratio_error = 0\<rparr>]"

definition example_file :: nuc_data where
  "example_file =
     \<lparr>file_exists = True, is_hdf5 = True,
      atomic_mass_table =
        [\<lparr>am_nuc = 922350000, am_mass = 2350439 / 10000, am_error = 0, am_abund = 72 / 10000\<rparr>],
      scattering_lengths_table =
        [\<lparr>sl_nuc = 10020000, sl_b_coherent = \<lparr>re = 6671 / 1000, im = 0\<rparr>,
          sl_b_incoherent = \<lparr>re = 404 / 100, im = 0\<rparr>,
          sl_xs_coherent = 5592 / 1000, sl_xs_incoherent = 205 / 100, sl_xs = 7642 / 1000\<rparr>,
         \<lparr>sl_nuc = 20030000, sl_b_coherent = \<lparr>re = 574 / 100, im = - 1483 / 1000\<rparr>,
          sl_b_incoherent = \<lparr>re = - 25 / 10, im = 2568 / 1000\<rparr>,
          sl_xs_coherent = 442 / 100, sl_xs_incoherent = 16 / 10, sl_xs = 6\<rparr>],
      wimsd_fission_products_table =
        [\<lparr>wf_from_nuc = 922350000, wf_to_nuc = 551370000, wf_yields = 631 / 10000\<rparr>],
      nds_fission_products_table =
        [\<lparr>nf_from_nuc = 922350000, nf_to_nuc = 551370000,
          nf_yield_thermal = 619 / 10000, nf_yield_thermal_err = 5 / 10000,
          nf_yield_fast = 620 / 10000, nf_yield_fast_err = 6 / 10000,
          nf_yield_14MeV = 492 / 10000, nf_yield_14MeV_err = 7 / 10000\<rparr>],
      half_life_table = [],
      level_list_table = example_levels,
      decays_table = example_decays,
      gammas_table = example_gammas\<rparr>"

definition missing_file :: nuc_data where
  "missing_file = example_file\<lparr>file_exists := False\<rparr>"

text \<open>The cache tables after one table of the example file has been loaded.\<close>

definition mass_loaded :: caches where
  "mass_loaded =
     empty_caches\<lparr>atomic_mass_map := [(922350000, 2350439 / 10000)],
                   natural_abund_map := [(922350000, 72 / 10000)]\<rparr>"

definition scattering_loaded :: caches where
  "scattering_loaded =
     empty_caches\<lparr>b_coherent_map :=
                     [(10020000, \<lparr>re = 6671 / 1000, im = 0\<rparr>),
                      (20030000, \<lparr>re = 574 / 100, im = - 1483 / 1000\<rparr>)],
                   b_incoherent_map :=
                     [(10020000, \<lparr>re = 404 / 100, im = 0\<rparr>),
                      (20030000, \<lparr>re = - 25 / 10, im = 2568 / 1000\<rparr>)]\<rparr>"

definition yields_loaded :: caches where
  "yields_loaded =
     empty_caches\<lparr>wimsdfpy_data := [((922350000, 551370000), 631 / 10000)],
                   ndsfpy_data :=
                     [((922350000, 551370000),
                       \<lparr>yield_thermal = 619 / 10000, yield_thermal_err = 5 / 10000,
                        yield_fast = 620 / 10000, yield_fast_err = 6 / 10000,
                        yield_14MeV = 492 / 10000, yield_14MeV_err = 7 / 10000\<rparr>)]\<rparr>"

definition levels_loaded :: caches where
  "levels_loaded = empty_caches\<lparr>level_data := map (\<lambda>r. (lv_nuc_id r, r)) example_levels\<rparr>"

definition decays_loaded :: caches where
  "decays_loaded =
     empty_caches\<lparr>decay_data := map (\<lambda>r. ((dk_parent r, dk_daughter r), r)) example_decays\<rparr>"

definition gammas_loaded :: caches where
  "gammas_loaded =
     empty_caches\<lparr>gamma_data := map (\<lambda>r. ((gm_parent_nuc r, gm_energy r), r)) example_gammas\<rparr>"

section \<open>Properties\<close>

subsection \<open>Basic facts\<close>

lemma empty_caches_fields:
  "atomic_mass_map empty_caches = []" "natural_abund_map empty_caches = []"
  "b_coherent_map empty_caches = []" "b_incoherent_map empty_caches = []"
  "wimsdfpy_data empty_caches = []" "ndsfpy_data empty_caches = []"
  "half_life_map empty_caches = []" "decay_const_map empty_caches = []"
  "branch_ratio_map empty_caches = []" "state_energy_map empty_caches = []"
  "decay_children_map empty_caches = []" "level_data empty_caches = []"
  "decay_data empty_caches = []" "gamma_data empty_caches = []"
  by (simp_all add: empty_caches_def)

lemma example_nucname_fields:
  "nucname_id example_nucname nuc = nuc"
  "nucname_znum example_nucname nuc = c_div nuc 10000000"
  "nucname_anum example_nucname nuc = c_mod (c_div nuc 10000) 1000"
  by (simp_all add: example_nucname_def)

lemma map_of_map_assign: "map_of (map_assign k v m) = (map_of m)(k \<mapsto> v)"
  by (induction m) (auto simp: fun_eq_iff)

lemma map_assign_nonempty: "map_assign k v m \<noteq> []"
  by (cases m) (auto split: if_splits)

lemma keys_map_assign: "fst ` set (map_assign k v m) = insert k (fst ` set m)"
  by (simp add: dom_map_of_conv_image_fst [symmetric] map_of_map_assign)

text \<open>Assignment keeps the keys in strictly ascending order.\<close>

lemma sorted_keys_map_assign: "sorted_keys m \<Longrightarrow> sorted_keys (map_assign k v m)"
proof (induction m)
  case Nil
  then show ?case by (simp add: sorted_keys_def)
next
  case (Cons e m)
  obtain k' v' where e: "e = (k', v')" by (cases e)
  from Cons.prems have tl: "sorted_keys m" and hd: "\<forall>x\<in>fst ` set m. k' < x"
    by (auto simp: sorted_keys_def e)
  show ?case
  proof (cases "k < k'")
    case True
    with Cons.prems show ?thesis by (auto simp: sorted_keys_def e)
  next
    case False
    show ?thesis
    proof (cases "k = k'")
      case True
      with Cons.prems show ?thesis by (auto simp: sorted_keys_def e)
    next
      case ne: False
      with False have "k' < k" by simp
      moreover have "sorted_keys (map_assign k v m)" using Cons.IH tl .
      moreover have "fst ` set (map_assign k v m) = insert k (fst ` set m)"
        by (rule keys_map_assign)
      ultimately show ?thesis using False ne hd
        by (auto simp: sorted_keys_def e)
    qed
  qed
qed

text \<open>A loader that cannot read the file throws and leaves the tables alone.\<close>

lemma load_fails:
  assumes "check_file ds = Some e"
  shows "load_atomic_mass_map ds st = Inl e" "load_scattering_lengths ds st = Inl e"
    "load_wimsdfpy ds st = Inl e" "load_ndsfpy ds st = Inl e" "load_half_life_decay ds st = Inl e"
    "load_level_data ds st = Inl e" "load_data_decay ds st = Inl e" "load_data_gamma ds st = Inl e"
  using assms
  by (simp_all add: load_atomic_mass_map_def load_scattering_lengths_def load_wimsdfpy_def
      load_ndsfpy_def load_half_life_decay_def load_level_data_def load_data_decay_def
      load_data_gamma_def)

lemma load_mass_keys_abund:
  "fst ` set (natural_abund_map
      (foldl (\<lambda>s r. s\<lparr>atomic_mass_map := map_assign (am_nuc r) (am_mass r) (atomic_mass_map s),
                       natural_abund_map := map_assign (am_nuc r) (am_abund r) (natural_abund_map s)\<rparr>)
         st rows))
   = fst ` set (natural_abund_map st) \<union> am_nuc ` set rows"
  by (induction rows arbitrary: st) (auto simp: keys_map_assign)

lemma load_mass_keys_mass:
  "fst ` set (atomic_mass_map
      (foldl (\<lambda>s r. s\<lparr>atomic_mass_map := map_assign (am_nuc r) (am_mass r) (atomic_mass_map s),
                       natural_abund_map := map_assign (am_nuc r) (am_abund r) (natural_abund_map s)\<rparr>)
         st rows))
   = fst ` set (atomic_mass_map st) \<union> am_nuc ` set rows"
  by (induction rows arbitrary: st) (auto simp: keys_map_assign)

lemma load_atomic_mass_map_ok:
  assumes "check_file ds = None"
  shows "\<exists>st'. load_atomic_mass_map ds st = Inr st' \<and>
           fst ` set (natural_abund_map st') =
             fst ` set (natural_abund_map st) \<union> am_nuc ` set (atomic_mass_table ds) \<and>
           fst ` set (atomic_mass_map st') =
             fst ` set (atomic_mass_map st) \<union> am_nuc ` set (atomic_mass_table ds)"
  using assms by (simp add: load_atomic_mass_map_def load_mass_keys_abund load_mass_keys_mass)

text \<open>The example file and the tables it loads into.\<close>

lemma check_example_file: "check_file example_file = None"
  by (simp add: check_file_def example_file_def)

lemma check_missing_file: "check_file missing_file = Some FileNotFound"
  by (simp add: check_file_def missing_file_def)

lemma load_mass_example:
  "load_atomic_mass_map example_file empty_caches = Inr mass_loaded"
  by (simp add: load_atomic_mass_map_def check_file_def example_file_def mass_loaded_def
      empty_caches_def)

lemma load_scattering_example:
  "load_scattering_lengths example_file empty_caches = Inr scattering_loaded"
  by (simp add: load_scattering_lengths_def check_file_def example_file_def scattering_loaded_def
      empty_caches_def)

lemma load_yields_example:
  "(case load_wimsdfpy example_file empty_caches of
      Inl e \<Rightarrow> Inl e
    | Inr st1 \<Rightarrow> load_ndsfpy example_file st1) = Inr yields_loaded"
  by (simp add: load_wimsdfpy_def load_ndsfpy_def check_file_def example_file_def
      yields_loaded_def empty_caches_def ndsfpysub_temp_def)

lemma load_level_example:
  "load_level_data example_file empty_caches = Inr levels_loaded"
  by (simp add: load_level_data_def check_file_def example_file_def example_levels_def
      levels_loaded_def empty_caches_def)

lemma load_decay_example:
  "load_data_decay example_file empty_caches = Inr decays_loaded"
  by (simp add: load_data_decay_def check_file_def example_file_def example_decays_def
      decays_loaded_def empty_caches_def)

lemma load_gamma_example:
  "load_data_gamma example_file empty_caches = Inr gammas_loaded"
  by (simp add: load_data_gamma_def check_file_def example_file_def example_gammas_def
      gammas_loaded_def empty_caches_def)

lemma mass_loaded_fields:
  "atomic_mass_map mass_loaded = [(922350000, 2350439 / 10000)]"
  "natural_abund_map mass_loaded = [(922350000, 72 / 10000)]"
  by (simp_all add: mass_loaded_def empty_caches_def)

lemma scattering_loaded_map:
  "b_coherent_map scattering_loaded =
     [(10020000, \<lparr>re = 6671 / 1000, im = 0\<rparr>), (20030000, \<lparr>re = 574 / 100, im = - 1483 / 1000\<rparr>)]"
  by (simp add: scattering_loaded_def)

subsection \<open>Atomic mass and natural abundance\<close>

text \<open>One unfolding of each accessor, by the branch taken.\<close>

lemma atomic_mass_found:
  "map_of (atomic_mass_map st) nuc = Some v \<Longrightarrow> atomic_mass nn ds st nuc = Some (v, st)"
  by (subst atomic_mass.simps) simp

text \<open>
  The load is not taken, or is taken and fails, when the table is non-empty or the file
  cannot be read.
\<close>

lemma atomic_mass_no_reload:
  assumes "atomic_mass_map st \<noteq> [] \<or> check_file ds \<noteq> None"
  shows "(if atomic_mass_map st = []
          then (case load_atomic_mass_map ds st of Inr st' \<Rightarrow> Some st' | Inl e \<Rightarrow> None)
          else None) = None"
proof (cases "atomic_mass_map st = []")
  case True
  with assms obtain e where "check_file ds = Some e" by auto
  then show ?thesis by (simp add: load_fails)
next
  case False
  then show ?thesis by simp
qed

lemma atomic_mass_ground_fallback:
  assumes "map_of (atomic_mass_map st) nuc = None"
    and "atomic_mass_map st \<noteq> [] \<or> check_file ds \<noteq> None"
    and "\<not> 0 < c_mod (nucname_id nn nuc) 10000"
  shows "atomic_mass nn ds st nuc =
           Some (real_of_int (c_mod (c_div (nucname_id nn nuc) 10000) 1000),
                 st\<lparr>atomic_mass_map :=
                      map_assign nuc (real_of_int (c_mod (c_div (nucname_id nn nuc) 10000) 1000))
                        (atomic_mass_map st)\<rparr>)"
  using assms(1,3) atomic_mass_no_reload [OF assms(2)]
  by (subst atomic_mass.simps) (simp add: Let_def)

lemma atomic_mass_excited_step:
  assumes "map_of (atomic_mass_map st) nuc = None"
    and "atomic_mass_map st \<noteq> [] \<or> check_file ds \<noteq> None"
    and "0 < c_mod (nucname_id nn nuc) 10000"
    and "atomic_mass nn ds st (c_div (nucname_id nn nuc) 10000 * 10000) = Some (aw, st1)"
  shows "atomic_mass nn ds st nuc =
           Some (aw, st1\<lparr>atomic_mass_map := map_assign nuc aw (atomic_mass_map st1)\<rparr>)"
  using assms(1,3,4) atomic_mass_no_reload [OF assms(2)]
  by (subst atomic_mass.simps) simp

lemma natural_abund_found:
  "map_of (natural_abund_map st) nuc = Some v \<Longrightarrow> natural_abund nn ds st nuc = Some (v, st)"
  by (subst natural_abund.simps) simp

lemma natural_abund_ground_fallback:
  assumes "map_of (natural_abund_map st) nuc = None" "natural_abund_map st \<noteq> []"
    and "\<not> 0 < c_mod (nucname_id nn nuc) 10000"
  shows "natural_abund nn ds st nuc =
           Some (0, st\<lparr>natural_abund_map := map_assign nuc 0 (natural_abund_map st)\<rparr>)"
  using assms by (subst natural_abund.simps) simp

lemma natural_abund_excited_step:
  assumes "map_of (natural_abund_map st) nuc = None" "natural_abund_map st \<noteq> []"
    and "0 < c_mod (nucname_id nn nuc) 10000"
    and "natural_abund nn ds st (c_div (nucname_id nn nuc) 10000 * 10000) = Some (na, st1)"
  shows "natural_abund nn ds st nuc =
           Some (na, st1\<lparr>atomic_mass_map := map_assign nuc na (atomic_mass_map st1)\<rparr>)"
  using assms by (subst natural_abund.simps) simp

lemma natural_abund_load_step:
  assumes "natural_abund_map st = []" "load_atomic_mass_map ds st = Inr st'"
  shows "natural_abund nn ds st nuc = natural_abund nn ds st' nuc"
  using assms by (subst natural_abund.simps) simp

lemma natural_abund_zero_loaded:
  assumes a1: "map_of (natural_abund_map st) nuc = None"
    and a2: "map_of (natural_abund_map st) (c_div (nucname_id nn nuc) 10000 * 10000) = None"
    and ne: "natural_abund_map st \<noteq> []"
    and gr: "\<not> 0 < c_mod (nucname_id nn (c_div (nucname_id nn nuc) 10000 * 10000)) 10000"
  shows "\<exists>st'. natural_abund nn ds st nuc = Some (0, st')"
proof (cases "0 < c_mod (nucname_id nn nuc) 10000")
  case True
  have "natural_abund nn ds st (c_div (nucname_id nn nuc) 10000 * 10000) =
          Some (0, st\<lparr>natural_abund_map :=
                        map_assign (c_div (nucname_id nn nuc) 10000 * 10000) 0 (natural_abund_map st)\<rparr>)"
    using a2 ne gr by (rule natural_abund_ground_fallback)
  from natural_abund_excited_step [OF a1 ne True this] show ?thesis by blast
next
  case False
  from natural_abund_ground_fallback [OF a1 ne False] show ?thesis by blast
qed

text \<open>
  Claim C5. For an excited-state id (state field above zero) that is absent from the
  atomic-mass table after the load (the table is non-empty, or the file cannot be read
  and the table stays empty), \<open>atomic_mass(id)\<close> returns what \<open>atomic_mass\<close>
  returns for the ground-state id, and stores that value under the excited id: the
  table then holds the excited key, and later calls for either id return the same
  value. The identifier service is assumed to map the ground-state id to an id with
  state field zero.
\<close>

theorem atomic_mass_excited_equals_ground:
  assumes absent: "map_of (atomic_mass_map st) nuc = None"
    and loaded: "atomic_mass_map st \<noteq> [] \<or> check_file ds \<noteq> None"
    and excited: "0 < c_mod (nucname_id nn nuc) 10000"
    and ground: "\<not> 0 < c_mod (nucname_id nn (c_div (nucname_id nn nuc) 10000 * 10000)) 10000"
  shows "\<exists>aw st1 st'.
           atomic_mass nn ds st (c_div (nucname_id nn nuc) 10000 * 10000) = Some (aw, st1) \<and>
           st' = st1\<lparr>atomic_mass_map := map_assign nuc aw (atomic_mass_map st1)\<rparr> \<and>
           atomic_mass nn ds st nuc = Some (aw, st') \<and>
           map_of (atomic_mass_map st') nuc = Some aw \<and>
           atomic_mass nn ds st' nuc = Some (aw, st') \<and>
           atomic_mass nn ds st' (c_div (nucname_id nn nuc) 10000 * 10000) = Some (aw, st')"
proof -
  let ?g = "c_div (nucname_id nn nuc) 10000 * 10000"
  have neq: "?g \<noteq> nuc"
  proof
    assume e: "?g = nuc"
    from ground have "\<not> 0 < c_mod (nucname_id nn nuc) 10000" unfolding e .
    with excited show False by contradiction
  qed
  have "\<exists>aw st1. atomic_mass nn ds st ?g = Some (aw, st1) \<and> map_of (atomic_mass_map st1) ?g = Some aw"
  proof (cases "map_of (atomic_mass_map st) ?g")
    case None
    from atomic_mass_ground_fallback [OF None loaded ground] show ?thesis
      by (simp add: map_of_map_assign)
  next
    case (Some v)
    then show ?thesis by (simp add: atomic_mass_found)
  qed
  then obtain aw st1 where g: "atomic_mass nn ds st ?g = Some (aw, st1)"
    and mg: "map_of (atomic_mass_map st1) ?g = Some aw" by blast
  let ?st' = "st1\<lparr>atomic_mass_map := map_assign nuc aw (atomic_mass_map st1)\<rparr>"
  have r: "atomic_mass nn ds st nuc = Some (aw, ?st')"
    using absent loaded excited g by (rule atomic_mass_excited_step)
  have m: "map_of (atomic_mass_map ?st') nuc = Some aw" by (simp add: map_of_map_assign)
  have m2: "map_of (atomic_mass_map ?st') ?g = Some aw" using mg neq by (simp add: map_of_map_assign)
  from g r m atomic_mass_found [OF m] atomic_mass_found [OF m2] show ?thesis by blast
qed

text \<open>The theorem at U-235m, with the mass table of the example file loaded.\<close>

theorem atomic_mass_excited_equals_ground_witness:
  "\<exists>aw st1 st'.
     atomic_mass example_nucname example_file mass_loaded
       (c_div (nucname_id example_nucname 922350001) 10000 * 10000) = Some (aw, st1) \<and>
     st' = st1\<lparr>atomic_mass_map := map_assign 922350001 aw (atomic_mass_map st1)\<rparr> \<and>
     atomic_mass example_nucname example_file mass_loaded 922350001 = Some (aw, st') \<and>
     map_of (atomic_mass_map st') 922350001 = Some aw \<and>
     atomic_mass example_nucname example_file st' 922350001 = Some (aw, st') \<and>
     atomic_mass example_nucname example_file st'
       (c_div (nucname_id example_nucname 922350001) 10000 * 10000) = Some (aw, st')"
  by (rule atomic_mass_excited_equals_ground)
     (simp_all add: mass_loaded_fields example_nucname_fields c_mod_def c_div_def)

text \<open>
  Claim C9. For an excited-state id absent from a non-empty abundance table,
  \<open>natural_abund(id)\<close> obtains the abundance from the call for the ground-state id and
  stores it under the id in the atomic-mass table, not in the abundance table: the
  abundance table still has no entry for the id, and a later \<open>atomic_mass(id)\<close>
  returns the abundance. The identifier service is assumed to map the ground-state id
  to an id with state field zero.
\<close>

theorem natural_abund_excited_memo_in_atomic_mass_map:
  assumes absent: "map_of (natural_abund_map st) nuc = None"
    and loaded: "natural_abund_map st \<noteq> []"
    and excited: "0 < c_mod (nucname_id nn nuc) 10000"
    and ground: "\<not> 0 < c_mod (nucname_id nn (c_div (nucname_id nn nuc) 10000 * 10000)) 10000"
  shows "\<exists>na st1 st'.
           natural_abund nn ds st (c_div (nucname_id nn nuc) 10000 * 10000) = Some (na, st1) \<and>
           st' = st1\<lparr>atomic_mass_map := map_assign nuc na (atomic_mass_map st1)\<rparr> \<and>
           natural_abund nn ds st nuc = Some (na, st') \<and>
           map_of (atomic_mass_map st') nuc = Some na \<and>
           map_of (natural_abund_map st') nuc = None \<and>
           atomic_mass nn ds st' nuc = Some (na, st')"
proof -
  let ?g = "c_div (nucname_id nn nuc) 10000 * 10000"
  have neq: "nuc \<noteq> ?g"
  proof
    assume e: "nuc = ?g"
    from ground have "\<not> 0 < c_mod (nucname_id nn nuc) 10000" unfolding e [symmetric] .
    with excited show False by contradiction
  qed
  have "\<exists>na st1. natural_abund nn ds st ?g = Some (na, st1) \<and> map_of (natural_abund_map st1) nuc = None"
  proof (cases "map_of (natural_abund_map st) ?g")
    case None
    from natural_abund_ground_fallback [OF None loaded ground] absent neq show ?thesis
      by (simp add: map_of_map_assign)
  next
    case (Some v)
    with absent show ?thesis by (simp add: natural_abund_found)
  qed
  then obtain na st1 where g: "natural_abund nn ds st ?g = Some (na, st1)"
    and mg: "map_of (natural_abund_map st1) nuc = None" by blast
  let ?st' = "st1\<lparr>atomic_mass_map := map_assign nuc na (atomic_mass_map st1)\<rparr>"
  have r: "natural_abund nn ds st nuc = Some (na, ?st')"
    using absent loaded excited g by (rule natural_abund_excited_step)
  have m: "map_of (atomic_mass_map ?st') nuc = Some na" by (simp add: map_of_map_assign)
  have m2: "map_of (natural_abund_map ?st') nuc = None" using mg by simp
  from g r m m2 atomic_mass_found [OF m] show ?thesis by blast
qed

text \<open>The theorem at U-235m, with the mass table of the example file loaded.\<close>

theorem natural_abund_excited_memo_in_atomic_mass_map_witness:
  "\<exists>na st1 st'.
     natural_abund example_nucname example_file mass_loaded
       (c_div (nucname_id example_nucname 922350001) 10000 * 10000) = Some (na, st1) \<and>
     st' = st1\<lparr>atomic_mass_map := map_assign 922350001 na (atomic_mass_map st1)\<rparr> \<and>
     natural_abund example_nucname example_file mass_loaded 922350001 = Some (na, st') \<and>
     map_of (atomic_mass_map st') 922350001 = Some na \<and>
     map_of (natural_abund_map st') 922350001 = None \<and>
     atomic_mass example_nucname example_file st' 922350001 = Some (na, st')"
  by (rule natural_abund_excited_memo_in_atomic_mass_map)
     (simp_all add: mass_loaded_fields example_nucname_fields c_mod_def c_div_def)

text \<open>
  Against claim C8 as stated (every id absent from the loaded dataset gets 0.0): the
  example file has a row for U-235 only, with abundance 0.0072; the excited state
  922350001 is absent from it, and \<open>natural_abund\<close> returns for it the abundance of its
  ground state.
\<close>

theorem natural_abund_excited_absent_nonzero:
  "922350001 \<notin> am_nuc ` set (atomic_mass_table example_file) \<and>
   natural_abund example_nucname example_file empty_caches 922350001 =
     Some (72 / 10000,
           mass_loaded\<lparr>atomic_mass_map := [(922350000, 2350439 / 10000), (922350001, 72 / 10000)]\<rparr>)"
proof -
  have g: "natural_abund example_nucname example_file mass_loaded 922350000
             = Some (72 / 10000, mass_loaded)"
    by (rule natural_abund_found) (simp add: mass_loaded_fields)
  have "natural_abund example_nucname example_file mass_loaded 922350001 =
          Some (72 / 10000,
                mass_loaded\<lparr>atomic_mass_map :=
                  map_assign 922350001 (72 / 10000) (atomic_mass_map mass_loaded)\<rparr>)"
    by (rule natural_abund_excited_step)
       (simp_all add: mass_loaded_fields example_nucname_fields c_mod_def c_div_def g)
  then have "natural_abund example_nucname example_file empty_caches 922350001 =
     Some (72 / 10000,
           mass_loaded\<lparr>atomic_mass_map := [(922350000, 2350439 / 10000), (922350001, 72 / 10000)]\<rparr>)"
    by (simp add: natural_abund_load_step [OF _ load_mass_example] empty_caches_fields
        mass_loaded_fields)
  then show ?thesis by (simp add: example_file_def)
qed

text \<open>
  In terms of the rows of the file: when an id and its ground-state id are both absent
  from the table and from the rows, the result is 0.0.
\<close>

lemma natural_abund_absent_ground_absent:
  assumes a1: "map_of (natural_abund_map st) nuc = None"
    and a2: "map_of (natural_abund_map st) (c_div (nucname_id nn nuc) 10000 * 10000) = None"
    and d1: "nuc \<notin> am_nuc ` set (atomic_mass_table ds)"
    and d2: "c_div (nucname_id nn nuc) 10000 * 10000 \<notin> am_nuc ` set (atomic_mass_table ds)"
    and loaded: "natural_abund_map st \<noteq> [] \<or> (check_file ds = None \<and> atomic_mass_table ds \<noteq> [])"
    and gr: "\<not> 0 < c_mod (nucname_id nn (c_div (nucname_id nn nuc) 10000 * 10000)) 10000"
  shows "\<exists>st'. natural_abund nn ds st nuc = Some (0, st')"
proof (cases "natural_abund_map st = []")
  case False
  then show ?thesis by (rule natural_abund_zero_loaded [OF a1 a2 _ gr])
next
  case True
  with loaded have ok: "check_file ds = None" and rows: "atomic_mass_table ds \<noteq> []" by auto
  from load_atomic_mass_map_ok [OF ok, of st] obtain st1 where
    st1: "load_atomic_mass_map ds st = Inr st1 \<and>
          fst ` set (natural_abund_map st1) =
             fst ` set (natural_abund_map st) \<union> am_nuc ` set (atomic_mass_table ds) \<and>
          fst ` set (atomic_mass_map st1) =
             fst ` set (atomic_mass_map st) \<union> am_nuc ` set (atomic_mass_table ds)" ..
  from st1 have ld: "load_atomic_mass_map ds st = Inr st1" by (rule conjunct1)
  from st1 have keys: "fst ` set (natural_abund_map st1) =
             fst ` set (natural_abund_map st) \<union> am_nuc ` set (atomic_mass_table ds)"
    by (elim conjE)
  from keys True have keys1: "fst ` set (natural_abund_map st1) = am_nuc ` set (atomic_mass_table ds)"
    by simp
  from rows keys1 have ne: "natural_abund_map st1 \<noteq> []" by auto
  from d1 keys1 have b1: "map_of (natural_abund_map st1) nuc = None"
    by (simp add: map_of_eq_None_iff)
  from d2 keys1 have b2: "map_of (natural_abund_map st1) (c_div (nucname_id nn nuc) 10000 * 10000) = None"
    by (simp add: map_of_eq_None_iff)
  from natural_abund_zero_loaded [OF b1 b2 ne gr] show ?thesis
    unfolding natural_abund_load_step [OF True ld] .
qed

lemma load_mass_abund_table:
  "natural_abund_map
      (foldl (\<lambda>s r. s\<lparr>atomic_mass_map := map_assign (am_nuc r) (am_mass r) (atomic_mass_map s),
                       natural_abund_map := map_assign (am_nuc r) (am_abund r) (natural_abund_map s)\<rparr>)
         st rows)
   = foldl (\<lambda>m r. map_assign (am_nuc r) (am_abund r) m) (natural_abund_map st) rows"
  by (induction rows arbitrary: st) simp_all

lemma natural_abund_absent_loaded:
  assumes a1: "map_of (natural_abund_map st) nuc = None"
    and ne: "natural_abund_map st \<noteq> []"
    and gr: "\<not> 0 < c_mod (nucname_id nn (c_div (nucname_id nn nuc) 10000 * 10000)) 10000"
  shows "\<exists>st'. natural_abund nn ds st nuc =
           Some (if 0 < c_mod (nucname_id nn nuc) 10000
                 then (case map_of (natural_abund_map st) (c_div (nucname_id nn nuc) 10000 * 10000) of
                         Some abund \<Rightarrow> abund | None \<Rightarrow> 0)
                 else 0, st')"
proof (cases "0 < c_mod (nucname_id nn nuc) 10000")
  case False
  from natural_abund_ground_fallback [OF a1 ne False] False show ?thesis by simp
next
  case True
  let ?g = "c_div (nucname_id nn nuc) 10000 * 10000"
  show ?thesis
  proof (cases "map_of (natural_abund_map st) ?g")
    case None
    have "natural_abund nn ds st ?g =
            Some (0, st\<lparr>natural_abund_map := map_assign ?g 0 (natural_abund_map st)\<rparr>)"
      using None ne gr by (rule natural_abund_ground_fallback)
    from natural_abund_excited_step [OF a1 ne True this] True None show ?thesis by simp
  next
    case (Some abund)
    then have "natural_abund nn ds st ?g = Some (abund, st)" by (rule natural_abund_found)
    from natural_abund_excited_step [OF a1 ne True this] True Some show ?thesis by simp
  qed
qed

text \<open>
  Claim C8, amended. Let an id be absent from the loaded, non-empty abundance table (the
  table as it stands, or as filled from the rows of the file when it is still empty).
  With state field zero, \<open>natural_abund(id)\<close> returns exactly 0.0. With a state field
  above zero it returns the abundance stored for the ground-state id, and exactly 0.0
  when the ground-state id is absent as well. The identifier service is assumed to map
  the ground-state id to an id with state field zero.
\<close>

theorem natural_abund_absent_value:
  assumes loaded: "natural_abund_map st \<noteq> [] \<or> (check_file ds = None \<and> atomic_mass_table ds \<noteq> [])"
    and tbl: "tbl = (if natural_abund_map st = []
                     then foldl (\<lambda>m r. map_assign (am_nuc r) (am_abund r) m) [] (atomic_mass_table ds)
                     else natural_abund_map st)"
    and absent: "map_of tbl nuc = None"
    and gr: "\<not> 0 < c_mod (nucname_id nn (c_div (nucname_id nn nuc) 10000 * 10000)) 10000"
  shows "\<exists>st'. natural_abund nn ds st nuc =
           Some (if 0 < c_mod (nucname_id nn nuc) 10000
                 then (case map_of tbl (c_div (nucname_id nn nuc) 10000 * 10000) of
                         Some abund \<Rightarrow> abund | None \<Rightarrow> 0)
                 else 0, st')"
proof (cases "natural_abund_map st = []")
  case False
  with tbl have t: "natural_abund_map st = tbl" by simp
  from natural_abund_absent_loaded [of st nuc nn ds, unfolded t, OF absent _ gr] False t
  show ?thesis by simp
next
  case True
  with loaded have ok: "check_file ds = None" and rows: "atomic_mass_table ds \<noteq> []" by auto
  let ?st1 = "foldl (\<lambda>s r. s\<lparr>atomic_mass_map := map_assign (am_nuc r) (am_mass r) (atomic_mass_map s),
                       natural_abund_map := map_assign (am_nuc r) (am_abund r) (natural_abund_map s)\<rparr>)
                st (atomic_mass_table ds)"
  have ld: "load_atomic_mass_map ds st = Inr ?st1" using ok by (simp add: load_atomic_mass_map_def)
  have t: "natural_abund_map ?st1 = tbl" using True tbl by (simp add: load_mass_abund_table)
  have "fst ` set (natural_abund_map ?st1) = fst ` set (natural_abund_map st) \<union> am_nuc ` set (atomic_mass_table ds)"
    by (rule load_mass_keys_abund)
  with rows have "fst ` set (natural_abund_map ?st1) \<noteq> {}" by simp
  then have ne: "tbl \<noteq> []" unfolding t by auto
  from natural_abund_absent_loaded [of ?st1 nuc nn ds, unfolded t, OF absent ne gr]
  show ?thesis unfolding natural_abund_load_step [OF True ld] .
qed

text \<open>
  The theorem from empty tables at the third level of U-238 (no row for U-238: 0.0) and
  at the seventh level of U-235 (the abundance of U-235), and with the table loaded at
  the ground state of U-238.
\<close>

theorem natural_abund_absent_value_witness:
  "(\<exists>st'. natural_abund example_nucname example_file empty_caches 922380003 = Some (0, st')) \<and>
   (\<exists>st'. natural_abund example_nucname example_file empty_caches 922350007 = Some (72 / 10000, st')) \<and>
   (\<exists>st'. natural_abund example_nucname example_file mass_loaded 922380000 = Some (0, st'))"
proof (intro conjI)
  have tbl: "[(922350000, 72 / 10000)] =
      (if natural_abund_map empty_caches = []
       then foldl (\<lambda>m r. map_assign (am_nuc r) (am_abund r) m) [] (atomic_mass_table example_file)
       else natural_abund_map empty_caches)"
    by (simp add: empty_caches_fields example_file_def)
  have ld: "natural_abund_map empty_caches \<noteq> [] \<or>
        (check_file example_file = None \<and> atomic_mass_table example_file \<noteq> [])"
    by (simp add: check_example_file) (simp add: example_file_def)
  show "\<exists>st'. natural_abund example_nucname example_file empty_caches 922380003 = Some (0, st')"
    using natural_abund_absent_value [OF ld tbl, of 922380003 example_nucname]
    by (simp add: example_nucname_fields c_mod_def c_div_def)
  show "\<exists>st'. natural_abund example_nucname example_file empty_caches 922350007 = Some (72 / 10000, st')"
    using natural_abund_absent_value [OF ld tbl, of 922350007 example_nucname]
    by (simp add: example_nucname_fields c_mod_def c_div_def)
  have tbl2: "natural_abund_map mass_loaded =
      (if natural_abund_map mass_loaded = []
       then foldl (\<lambda>m r. map_assign (am_nuc r) (am_abund r) m) [] (atomic_mass_table example_file)
       else natural_abund_map mass_loaded)"
    by (simp add: mass_loaded_fields)
  show "\<exists>st'. natural_abund example_nucname example_file mass_loaded 922380000 = Some (0, st')"
    using natural_abund_absent_value [of mass_loaded example_file, OF _ tbl2, of 922380000 example_nucname]
    by (simp add: example_nucname_fields c_mod_def c_div_def mass_loaded_fields)
qed

subsection \<open>Coherent scattering length\<close>

lemma scan_match_none: "(\<forall>k\<in>fst ` set m. \<not> test k) \<Longrightarrow> scan_match test m = None"
  by (induction m) auto

text \<open>On a table in key order the scan finds the entry with the least matching key.\<close>

lemma scan_match_least:
  assumes "sorted_keys m" and "\<exists>k\<in>fst ` set m. test k"
  shows "scan_match test m = map_of m (Min {k \<in> fst ` set m. test k})"
  using assms
proof (induction m)
  case Nil
  then show ?case by simp
next
  case (Cons e m)
  obtain k v where e: "e = (k, v)" by (cases e)
  from Cons.prems(1) have tl: "sorted_keys m" and above: "\<forall>x\<in>fst ` set m. k < x"
    by (auto simp: sorted_keys_def e)
  show ?case
  proof (cases "test k")
    case True
    have "Min {x \<in> fst ` set (e # m). test x} = k"
    proof (rule Min_eqI)
      show "finite {x \<in> fst ` set (e # m). test x}" by simp
      show "k \<in> {x \<in> fst ` set (e # m). test x}" using True by (simp add: e)
      fix y assume "y \<in> {x \<in> fst ` set (e # m). test x}"
      then show "k \<le> y" using above by (auto simp: e)
    qed
    with True show ?thesis by (simp add: e)
  next
    case False
    with Cons.prems(2) have ex: "\<exists>x\<in>fst ` set m. test x" by (auto simp: e)
    from False have same: "{x \<in> fst ` set (e # m). test x} = {x \<in> fst ` set m. test x}"
      by (auto simp: e)
    have "Min {x \<in> fst ` set m. test x} \<in> {x \<in> fst ` set m. test x}"
      using ex by (intro Min_in) auto
    then have "test (Min {x \<in> fst ` set m. test x})" by simp
    with False have neq: "Min {x \<in> fst ` set m. test x} \<noteq> k" by auto
    have "scan_match test (e # m) = scan_match test m" using False by (simp add: e)
    also have "\<dots> = map_of m (Min {x \<in> fst ` set m. test x})" by (rule Cons.IH [OF tl ex])
    also have "\<dots> = map_of (e # m) (Min {x \<in> fst ` set m. test x})" using neq by (simp add: e)
    finally show ?thesis unfolding same .
  qed
qed

lemma map_of_Min_defined:
  assumes "\<exists>k\<in>fst ` set m. test k"
  shows "\<exists>v. map_of m (Min {k \<in> fst ` set m. test k}) = Some v"
proof -
  have "Min {x \<in> fst ` set m. test x} \<in> {x \<in> fst ` set m. test x}"
    using assms by (intro Min_in) auto
  then have "Min {x \<in> fst ` set m. test x} \<in> fst ` set m" by simp
  then have "map_of m (Min {x \<in> fst ` set m. test x}) \<noteq> None"
    by (simp add: map_of_eq_None_iff)
  then show ?thesis by auto
qed

text \<open>
  Claim C6. For an id absent from a non-empty coherent-scattering-length table (kept in
  key order), \<open>b_coherent(id)\<close> returns the value at the least key whose mass number
  equals that of the id; when no key has that mass number, the value at the least key
  whose atomic number equals that of the id; when there is none either, complex zero.
  The value is stored under the id. A mass-number match wins over every
  atomic-number match.
\<close>

theorem b_coherent_fallback_precedence:
  assumes sorted: "sorted_keys (b_coherent_map st)"
    and absent: "map_of (b_coherent_map st) nuc = None"
    and nonempty: "b_coherent_map st \<noteq> []"
    and a: "a = nucname_anum nn (nucname_id nn nuc)"
    and z: "z = nucname_znum nn (nucname_id nn nuc)"
    and bc: "bc = (if \<exists>k\<in>fst ` set (b_coherent_map st). nucname_anum nn k = a
                   then the (map_of (b_coherent_map st)
                          (Min {k \<in> fst ` set (b_coherent_map st). nucname_anum nn k = a}))
                   else if \<exists>k\<in>fst ` set (b_coherent_map st). nucname_znum nn k = z
                   then the (map_of (b_coherent_map st)
                          (Min {k \<in> fst ` set (b_coherent_map st). nucname_znum nn k = z}))
                   else \<lparr>re = 0, im = 0\<rparr>)"
  shows "b_coherent nn ds st nuc =
           Some (Inr (bc, st\<lparr>b_coherent_map := map_assign nuc bc (b_coherent_map st)\<rparr>)) \<and>
         map_of (b_coherent_map (st\<lparr>b_coherent_map := map_assign nuc bc (b_coherent_map st)\<rparr>)) nuc
           = Some bc"
proof
  let ?m = "b_coherent_map st"
  let ?ta = "\<lambda>k. a = nucname_anum nn k" and ?tz = "\<lambda>k. z = nucname_znum nn k"
  have sets: "{k \<in> fst ` set ?m. nucname_anum nn k = a} = {k \<in> fst ` set ?m. ?ta k}"
    "{k \<in> fst ` set ?m. nucname_znum nn k = z} = {k \<in> fst ` set ?m. ?tz k}"
    by auto
  have scan: "(case scan_match ?ta ?m of Some bc \<Rightarrow> bc
               | None \<Rightarrow> (case scan_match ?tz ?m of Some bc \<Rightarrow> bc | None \<Rightarrow> \<lparr>re = 0, im = 0\<rparr>)) = bc"
  proof (cases "\<exists>k\<in>fst ` set ?m. ?ta k")
    case True
    from map_of_Min_defined [of ?m ?ta, OF True] obtain v where
      v: "map_of ?m (Min {k \<in> fst ` set ?m. ?ta k}) = Some v" ..
    from True have "\<exists>k\<in>fst ` set ?m. nucname_anum nn k = a" by auto
    then have "bc = v" using v by (simp add: bc sets)
    with scan_match_least [OF sorted True] v show ?thesis by simp
  next
    case noa: False
    then have sa: "scan_match ?ta ?m = None" by (intro scan_match_none) auto
    from noa have noa': "\<not> (\<exists>k\<in>fst ` set ?m. nucname_anum nn k = a)" by auto
    show ?thesis
    proof (cases "\<exists>k\<in>fst ` set ?m. ?tz k")
      case True
      from map_of_Min_defined [of ?m ?tz, OF True] obtain v where
        v: "map_of ?m (Min {k \<in> fst ` set ?m. ?tz k}) = Some v" ..
      from True have "\<exists>k\<in>fst ` set ?m. nucname_znum nn k = z" by auto
      then have "bc = v" using v noa' by (simp add: bc sets)
      with scan_match_least [OF sorted True] v sa show ?thesis by simp
    next
      case noz: False
      then have sz: "scan_match ?tz ?m = None" by (intro scan_match_none) auto
      from noz have "\<not> (\<exists>k\<in>fst ` set ?m. nucname_znum nn k = z)" by auto
      with noa' have "bc = \<lparr>re = 0, im = 0\<rparr>" by (simp add: bc)
      with sa sz show ?thesis by simp
    qed
  qed
  let ?found = "case scan_match (\<lambda>k. nucname_anum nn (nucname_id nn nuc) = nucname_anum nn k) ?m of
                  Some bc \<Rightarrow> bc
                | None \<Rightarrow>
                   (case scan_match (\<lambda>k. nucname_znum nn (nucname_id nn nuc) = nucname_znum nn k) ?m of
                      Some bc \<Rightarrow> bc | None \<Rightarrow> \<lparr>re = 0, im = 0\<rparr>)"
  have found: "?found = bc" using scan unfolding a z .
  have "b_coherent nn ds st nuc =
          Some (Inr (?found, st\<lparr>b_coherent_map := map_assign nuc ?found (b_coherent_map st)\<rparr>))"
    using absent nonempty by (subst b_coherent.simps) (simp add: Let_def)
  then show "b_coherent nn ds st nuc =
           Some (Inr (bc, st\<lparr>b_coherent_map := map_assign nuc bc (b_coherent_map st)\<rparr>))"
    unfolding found .
next
  show "map_of (b_coherent_map (st\<lparr>b_coherent_map := map_assign nuc bc (b_coherent_map st)\<rparr>)) nuc
           = Some bc"
    by (simp add: map_of_map_assign)
qed

text \<open>
  The theorem at H-3 with the entries of H-2 and He-3 loaded: He-3 matches by mass
  number only, H-2 by atomic number only and under the smaller key; the value of He-3
  is returned.
\<close>

theorem b_coherent_fallback_precedence_witness:
  "b_coherent example_nucname example_file scattering_loaded 10030000 =
     Some (Inr (\<lparr>re = 574 / 100, im = - 1483 / 1000\<rparr>,
                scattering_loaded\<lparr>b_coherent_map :=
                  map_assign 10030000 \<lparr>re = 574 / 100, im = - 1483 / 1000\<rparr>
                    (b_coherent_map scattering_loaded)\<rparr>)) \<and>
   map_of (b_coherent_map (scattering_loaded\<lparr>b_coherent_map :=
                  map_assign 10030000 \<lparr>re = 574 / 100, im = - 1483 / 1000\<rparr>
                    (b_coherent_map scattering_loaded)\<rparr>)) 10030000
     = Some \<lparr>re = 574 / 100, im = - 1483 / 1000\<rparr>"
proof (rule b_coherent_fallback_precedence [where a = 3 and z = 1])
  show "sorted_keys (b_coherent_map scattering_loaded)"
    by (simp add: scattering_loaded_map sorted_keys_def)
  show "map_of (b_coherent_map scattering_loaded) 10030000 = None"
    by (simp add: scattering_loaded_map)
  show "b_coherent_map scattering_loaded \<noteq> []"
    by (simp add: scattering_loaded_map)
  show "3 = nucname_anum example_nucname (nucname_id example_nucname 10030000)"
    by (simp add: example_nucname_fields c_mod_def c_div_def)
  show "1 = nucname_znum example_nucname (nucname_id example_nucname 10030000)"
    by (simp add: example_nucname_fields c_mod_def c_div_def)
  have "{k \<in> fst ` set (b_coherent_map scattering_loaded). nucname_anum example_nucname k = 3}
          = {20030000}"
    by (auto simp: scattering_loaded_map example_nucname_fields c_mod_def c_div_def)
  moreover have "\<exists>k\<in>fst ` set (b_coherent_map scattering_loaded). nucname_anum example_nucname k = 3"
    by (simp add: scattering_loaded_map example_nucname_fields c_mod_def c_div_def)
  ultimately show "\<lparr>re = 574 / 100, im = - 1483 / 1000\<rparr> =
      (if \<exists>k\<in>fst ` set (b_coherent_map scattering_loaded). nucname_anum example_nucname k = 3
       then the (map_of (b_coherent_map scattering_loaded)
              (Min {k \<in> fst ` set (b_coherent_map scattering_loaded). nucname_anum example_nucname k = 3}))
       else if \<exists>k\<in>fst ` set (b_coherent_map scattering_loaded). nucname_znum example_nucname k = 1
       then the (map_of (b_coherent_map scattering_loaded)
              (Min {k \<in> fst ` set (b_coherent_map scattering_loaded). nucname_znum example_nucname k = 1}))
       else \<lparr>re = 0, im = 0\<rparr>)"
    by (simp add: scattering_loaded_map)
qed

subsection \<open>Load failures\<close>

text \<open>
  Against claim C3 as stated (the load error is swallowed and 0.0 returned): with the
  file missing and the tables empty, \<open>decay_const\<close> throws \<open>FileNotFound\<close>.
\<close>

theorem decay_const_throws_on_missing_file:
  "decay_const missing_file empty_caches 922350000 = Some (Inl FileNotFound)"
  by (subst decay_const.simps)
     (simp add: empty_caches_fields load_fails [OF check_missing_file])

text \<open>
  Claim C3, amended. When the bulk load fails, each of \<open>decay_const\<close>, \<open>branch_ratio\<close>,
  \<open>decay_children\<close> and \<open>fpyield\<close>, called on its empty table, passes the load error on
  to the caller; no value is returned and nothing is stored. Only \<open>atomic_mass\<close> and
  \<open>natural_abund\<close> swallow the error and return their fallback (shown here for ids
  with state field zero: the mass number, respectively 0.0, stored under the id).
\<close>

theorem load_failure_propagates:
  assumes fails: "check_file ds = Some e"
  shows "(decay_const_map st = [] \<longrightarrow> decay_const ds st nuc = Some (Inl e)) \<and>
         (branch_ratio_map st = [] \<longrightarrow> branch_ratio ds st from_to = Some (Inl e)) \<and>
         (decay_children_map st = [] \<longrightarrow> decay_children ds st nuc = Some (Inl e)) \<and>
         ((if source = 0 then wimsdfpy_data st = [] else ndsfpy_data st = []) \<longrightarrow>
            fpyield ds st from_to source get_error = Some (Inl e)) \<and>
         (atomic_mass_map st = [] \<and> \<not> 0 < c_mod (nucname_id nn nuc) 10000 \<longrightarrow>
            atomic_mass nn ds st nuc =
              Some (real_of_int (c_mod (c_div (nucname_id nn nuc) 10000) 1000),
                    st\<lparr>atomic_mass_map :=
                         [(nuc, real_of_int (c_mod (c_div (nucname_id nn nuc) 10000) 1000))]\<rparr>)) \<and>
         (natural_abund_map st = [] \<and> \<not> 0 < c_mod (nucname_id nn nuc) 10000 \<longrightarrow>
            natural_abund nn ds st nuc = Some (0, st\<lparr>natural_abund_map := [(nuc, 0)]\<rparr>))"
proof (intro conjI impI)
  assume "decay_const_map st = []"
  then show "decay_const ds st nuc = Some (Inl e)"
    by (subst decay_const.simps) (simp add: load_fails [OF fails])
next
  assume "branch_ratio_map st = []"
  then show "branch_ratio ds st from_to = Some (Inl e)"
    by (subst branch_ratio.simps) (simp add: load_fails [OF fails])
next
  assume "decay_children_map st = []"
  then show "decay_children ds st nuc = Some (Inl e)"
    by (subst decay_children.simps) (simp add: load_fails [OF fails])
next
  assume "if source = 0 then wimsdfpy_data st = [] else ndsfpy_data st = []"
  then show "fpyield ds st from_to source get_error = Some (Inl e)"
    by (subst fpyield.simps) (simp add: load_fails [OF fails] split: if_splits)
next
  assume "atomic_mass_map st = [] \<and> \<not> 0 < c_mod (nucname_id nn nuc) 10000"
  then show "atomic_mass nn ds st nuc =
              Some (real_of_int (c_mod (c_div (nucname_id nn nuc) 10000) 1000),
                    st\<lparr>atomic_mass_map :=
                         [(nuc, real_of_int (c_mod (c_div (nucname_id nn nuc) 10000) 1000))]\<rparr>)"
    by (subst atomic_mass.simps) (simp add: load_fails [OF fails] Let_def)
next
  assume "natural_abund_map st = [] \<and> \<not> 0 < c_mod (nucname_id nn nuc) 10000"
  then show "natural_abund nn ds st nuc = Some (0, st\<lparr>natural_abund_map := [(nuc, 0)]\<rparr>)"
    by (subst natural_abund.simps) (simp add: load_fails [OF fails])
qed

text \<open>The theorem with the file missing and all tables empty, at Cs-137 and its daughter.\<close>

theorem load_failure_propagates_witness:
  "decay_const missing_file empty_caches 551370000 = Some (Inl FileNotFound) \<and>
   branch_ratio missing_file empty_caches (551370000, 561370000) = Some (Inl FileNotFound) \<and>
   decay_children missing_file empty_caches 551370000 = Some (Inl FileNotFound) \<and>
   fpyield missing_file empty_caches (551370000, 561370000) 1 False = Some (Inl FileNotFound) \<and>
   atomic_mass example_nucname missing_file empty_caches 551370000 =
     Some (137, empty_caches\<lparr>atomic_mass_map := [(551370000, 137)]\<rparr>) \<and>
   natural_abund example_nucname missing_file empty_caches 551370000 =
     Some (0, empty_caches\<lparr>natural_abund_map := [(551370000, 0)]\<rparr>)"
  using load_failure_propagates [OF check_missing_file, where st = empty_caches
      and nuc = 551370000 and from_to = "(551370000, 561370000)" and source = 1
      and get_error = False and nn = example_nucname]
  by (simp add: empty_caches_fields example_nucname_fields c_mod_def c_div_def)

subsection \<open>Fission product yields\<close>

text \<open>
  Claim C7. With both yield tables loaded (non-empty) and the pair missing from the
  table that \<open>source\<close> selects, \<open>fpyield\<close> returns 0.0 and stores 0.0 under the pair in
  the WIMS table, whatever the source; the richer table is left as it was.
\<close>

theorem fpyield_fallback_lands_in_wims:
  assumes wims: "wimsdfpy_data st \<noteq> []" and nds: "ndsfpy_data st \<noteq> []"
    and miss_wims: "source = 0 \<Longrightarrow> map_of (wimsdfpy_data st) from_to = None"
    and miss_nds: "source \<noteq> 0 \<Longrightarrow> map_of (ndsfpy_data st) from_to = None"
  shows "fpyield ds st from_to source get_error =
           Some (Inr (0, st\<lparr>wimsdfpy_data := map_assign from_to 0 (wimsdfpy_data st)\<rparr>)) \<and>
         map_of (wimsdfpy_data (st\<lparr>wimsdfpy_data := map_assign from_to 0 (wimsdfpy_data st)\<rparr>)) from_to
           = Some 0 \<and>
         ndsfpy_data (st\<lparr>wimsdfpy_data := map_assign from_to 0 (wimsdfpy_data st)\<rparr>) = ndsfpy_data st"
proof (intro conjI)
  show "fpyield ds st from_to source get_error =
           Some (Inr (0, st\<lparr>wimsdfpy_data := map_assign from_to 0 (wimsdfpy_data st)\<rparr>))"
  proof (cases "source = 0")
    case True
    with wims nds miss_wims show ?thesis by (subst fpyield.simps) simp
  next
    case False
    with wims nds miss_nds show ?thesis by (subst fpyield.simps) simp
  qed
qed (simp_all add: map_of_map_assign)

text \<open>The theorem for a thermal yield (source 1) of a pair that neither table holds.\<close>

theorem fpyield_fallback_lands_in_wims_witness:
  "fpyield example_file yields_loaded (922350000, 400900000) 1 False =
     Some (Inr (0, yields_loaded\<lparr>wimsdfpy_data :=
                     map_assign (922350000, 400900000) 0 (wimsdfpy_data yields_loaded)\<rparr>)) \<and>
   map_of (wimsdfpy_data (yields_loaded\<lparr>wimsdfpy_data :=
                     map_assign (922350000, 400900000) 0 (wimsdfpy_data yields_loaded)\<rparr>))
     (922350000, 400900000) = Some 0 \<and>
   ndsfpy_data (yields_loaded\<lparr>wimsdfpy_data :=
                     map_assign (922350000, 400900000) 0 (wimsdfpy_data yields_loaded)\<rparr>)
     = ndsfpy_data yields_loaded"
  by (rule fpyield_fallback_lands_in_wims) (simp_all add: yields_loaded_def empty_caches_def)

subsection \<open>Level data\<close>

text \<open>
  Claim C2. Calling a scalar accessor twice with the same key should return the same
  value. \<open>state_energy\<close> breaks this: on the first call with an empty level table it
  loads the table, drops the value of its recursive call and returns 0.0; the second
  call finds the entry and returns its level energy.
\<close>

theorem state_energy_second_call_differs:
  "state_energy example_file empty_caches 922350001 = Some (Inr (0, levels_loaded)) \<and>
   state_energy example_file levels_loaded 922350001 = Some (Inr (3 / 2, levels_loaded))"
proof -
  have found: "state_energy example_file levels_loaded 922350001 = Some (Inr (3 / 2, levels_loaded))"
    by (subst state_energy.simps) (simp add: levels_loaded_def example_levels_def)
  have "state_energy example_file empty_caches 922350001 = Some (Inr (0, levels_loaded))"
    by (subst state_energy.simps) (simp add: load_level_example found empty_caches_fields)
  with found show ?thesis by simp
qed

text \<open>
  Other accessors keep the value for the second call: \<open>atomic_mass\<close> and \<open>decay_const\<close>
  leave every value they return stored under the key.
\<close>

lemma decay_const_stored:
  assumes "decay_const ds st nuc = Some res"
  shows "\<forall>dc st'. res = Inr (dc, st') \<longrightarrow> map_of (decay_const_map st') nuc = Some dc"
proof (rule decay_const.raw_induct
    [where P = "\<lambda>ds st nuc res. \<forall>dc st'. res = Inr (dc, st') \<longrightarrow>
                   map_of (decay_const_map st') nuc = Some dc", OF _ assms])
  fix f ds st nuc res
  assume IH: "\<And>ds st nuc res. f ds st nuc = Some res \<Longrightarrow>
                \<forall>dc st'. res = Inr (dc, st') \<longrightarrow> map_of (decay_const_map st') nuc = Some dc"
    and body: "(case map_of (decay_const_map st) nuc of
        Some dc \<Rightarrow> Some (Inr (dc, st))
      | None \<Rightarrow>
          if decay_const_map st = [] then
            (case load_half_life_decay ds st of
               Inl e \<Rightarrow> Some (Inl e)
             | Inr st' \<Rightarrow> f ds st' nuc)
          else
            (let dc = 0
             in Some (Inr (dc, st\<lparr>decay_const_map := map_assign nuc dc (decay_const_map st)\<rparr>)))) = Some res"
  show "\<forall>dc st'. res = Inr (dc, st') \<longrightarrow> map_of (decay_const_map st') nuc = Some dc"
  proof (cases "map_of (decay_const_map st) nuc")
    case (Some dc)
    with body show ?thesis by auto
  next
    case None
    show ?thesis
    proof (cases "decay_const_map st = []")
      case False
      with None body show ?thesis by (auto simp: map_of_map_assign)
    next
      case True
      show ?thesis
      proof (cases "load_half_life_decay ds st")
        case (Inl e)
        with None True body show ?thesis by auto
      next
        case (Inr st1)
        with None True body have "f ds st1 nuc = Some res" by simp
        then show ?thesis by (rule IH)
      qed
    qed
  qed
qed

lemma decay_const_idempotent:
  assumes "decay_const ds st nuc = Some (Inr (dc, st'))"
  shows "decay_const ds st' nuc = Some (Inr (dc, st'))"
proof -
  from decay_const_stored [OF assms] have "map_of (decay_const_map st') nuc = Some dc" by simp
  then show ?thesis by (subst decay_const.simps) simp
qed

lemma atomic_mass_stored:
  assumes "atomic_mass nn ds st nuc = Some res"
  shows "map_of (atomic_mass_map (snd res)) nuc = Some (fst res)"
proof (rule atomic_mass.raw_induct
    [where P = "\<lambda>nn ds st nuc res. map_of (atomic_mass_map (snd res)) nuc = Some (fst res)",
      OF _ assms])
  fix f and nn :: nucname and ds st nuc res
  assume IH: "\<And>nn ds st nuc res. f nn ds st nuc = Some res \<Longrightarrow>
                map_of (atomic_mass_map (snd res)) nuc = Some (fst res)"
    and body: "(case map_of (atomic_mass_map st) nuc of
        Some mass \<Rightarrow> Some (mass, st)
      | None \<Rightarrow>
         (case (if atomic_mass_map st = []
                then (case load_atomic_mass_map ds st of Inr st' \<Rightarrow> Some st' | Inl e \<Rightarrow> None)
                else None) of
            Some st' \<Rightarrow> f nn ds st' nuc
          | None \<Rightarrow>
             (let nucid = nucname_id nn nuc in
              if 0 < c_mod nucid 10000 then
                Option.bind (f nn ds st (c_div nucid 10000 * 10000))
                  (\<lambda>(aw, st1). Some (aw, st1\<lparr>atomic_mass_map := map_assign nuc aw (atomic_mass_map st1)\<rparr>))
              else
                (let aw = real_of_int (c_mod (c_div nucid 10000) 1000)
                 in Some (aw, st\<lparr>atomic_mass_map := map_assign nuc aw (atomic_mass_map st)\<rparr>))))) = Some res"
  show "map_of (atomic_mass_map (snd res)) nuc = Some (fst res)"
  proof (cases "map_of (atomic_mass_map st) nuc")
    case (Some mass)
    with body show ?thesis by auto
  next
    case None
    show ?thesis
    proof (cases "if atomic_mass_map st = []
                then (case load_atomic_mass_map ds st of Inr st' \<Rightarrow> Some st' | Inl e \<Rightarrow> None)
                else None")
      case (Some st1)
      with None body have "f nn ds st1 nuc = Some res" by simp
      then show ?thesis by (rule IH)
    next
      case noload: None
      show ?thesis
      proof (cases "0 < c_mod (nucname_id nn nuc) 10000")
        case True
        with None noload body show ?thesis
          by (auto simp: Let_def map_of_map_assign split: Option.bind_splits)
      next
        case False
        with None noload body show ?thesis by (auto simp: Let_def map_of_map_assign)
      qed
    qed
  qed
qed

lemma atomic_mass_idempotent:
  assumes "atomic_mass nn ds st nuc = Some (aw, st')"
  shows "atomic_mass nn ds st' nuc = Some (aw, st')"
proof -
  from atomic_mass_stored [OF assms] have "map_of (atomic_mass_map st') nuc = Some aw" by simp
  then show ?thesis by (rule atomic_mass_found)
qed

text \<open>The sibling \<open>half_life\<close> returns the value of its recursive call.\<close>

lemma half_life_first_call_finds_entry:
  "half_life example_file empty_caches 922350001 = Some (Inr (1560, levels_loaded))"
proof -
  have found: "half_life example_file levels_loaded 922350001 = Some (Inr (1560, levels_loaded))"
    by (subst half_life.simps) (simp add: levels_loaded_def example_levels_def)
  show ?thesis
    by (subst half_life.simps) (simp add: load_level_example found empty_caches_fields)
qed

text \<open>
  Claim C4. \<open>metastable_id(id, m)\<close> should scan the 10,000-wide block of the ground state
  of \<open>id\<close>. The code clears only the last three digits of \<open>id\<close>, so for a state field of
  1000 or more the block starts at the wrong id: for the 1000th level of U-235 it scans
  922351000 to 922360999, misses the first metastable state 922350001 of U-235 and
  returns a state of U-236.
\<close>

theorem metastable_id_scans_wrong_block:
  "metastable_id example_file empty_caches 922351000 1 = Some (Inr (922360005, levels_loaded))"
  by (simp add: metastable_id_def empty_caches_fields load_level_example c_div_def INT_MAX_def)
     (simp add: lower_bound_def upper_bound_def iter_range_def levels_loaded_def example_levels_def)

text \<open>For a state field below 1000 the block is that of the ground state.\<close>

lemma metastable_id_small_state:
  "metastable_id example_file empty_caches 922350000 1 = Some (Inr (922350001, levels_loaded))"
  by (simp add: metastable_id_def empty_caches_fields load_level_example c_div_def INT_MAX_def)
     (simp add: lower_bound_def upper_bound_def iter_range_def levels_loaded_def example_levels_def)

text \<open>Within 9999 of \<open>INT_MAX\<close> the upper bound overflows.\<close>

lemma metastable_id_overflow:
  "metastable_id example_file empty_caches 2147483647 1 = None"
  by (simp add: metastable_id_def empty_caches_fields load_level_example c_div_def INT_MAX_def)

subsection \<open>Decay data of a parent\<close>

text \<open>The upper bound of a range never lies before its lower bound when the keys are in this order.\<close>

lemma bounds_nested:
  "lo \<le> hi \<Longrightarrow> length (upper_bound hi m) \<le> length (lower_bound lo m)"
proof (induction m)
  case Nil
  then show ?case by (simp add: upper_bound_def lower_bound_def)
next
  case (Cons e m)
  show ?case
  proof (cases "fst e < lo")
    case True
    with Cons show ?thesis by (simp add: upper_bound_def lower_bound_def)
  next
    case False
    have "length (dropWhile (\<lambda>e. fst e \<le> hi) m) \<le> length m" by (rule length_dropWhile_le)
    with False show ?thesis by (simp add: upper_bound_def lower_bound_def)
  qed
qed

lemma parent_bounds_ordered: "(parent :: int, 0) \<le> (parent, int_wrap32 9999999999)"
  by (simp add: int_wrap32_def)

lemma data_access_parent_int_loaded:
  assumes "data st \<noteq> []"
  shows "data_access_parent_int load_data data ds st parent valoffset =
           Some (Inr (map (\<lambda>it. valoffset (snd (hd (lower_bound (parent, 0) (data st)))))
                        (take (length (lower_bound (parent, 0) (data st)) -
                               length (upper_bound (parent, int_wrap32 9999999999) (data st)))
                           (lower_bound (parent, 0) (data st))), st))"
  using assms bounds_nested [OF parent_bounds_ordered, of parent "data st"]
  by (subst data_access_parent_int.simps) (simp add: iter_range_def Let_def)

text \<open>On a table in key order the visited entries are those with keys between the bounds.\<close>

lemma iter_range_sorted:
  assumes "sorted_keys m" and "lo \<le> hi"
  shows "iter_range (lower_bound lo m) (upper_bound hi m) =
           Some (filter (\<lambda>e. lo \<le> fst e \<and> fst e \<le> hi) m)"
  using assms(1)
proof (induction m)
  case Nil
  show ?case by (simp add: iter_range_def lower_bound_def upper_bound_def)
next
  case (Cons e m)
  from Cons.prems have tl: "sorted_keys m" and above: "\<forall>x\<in>set m. fst e < fst x"
    by (auto simp: sorted_keys_def)
  show ?case
  proof (cases "fst e < lo")
    case True
    with assms(2) have "fst e \<le> hi" by simp
    with True Cons.IH [OF tl] show ?thesis by (simp add: lower_bound_def upper_bound_def)
  next
    case False
    then have lo: "lo \<le> fst e" by simp
    with above have all_lo: "\<forall>x\<in>set m. lo \<le> fst x" by auto
    then have lbm: "lower_bound lo m = m"
      by (cases m) (auto simp: lower_bound_def)
    show ?thesis
    proof (cases "fst e \<le> hi")
      case True
      have le: "length (upper_bound hi m) \<le> length m"
        by (simp add: upper_bound_def length_dropWhile_le)
      from Cons.IH [OF tl] have "take (length m - length (upper_bound hi m)) m =
          filter (\<lambda>e. lo \<le> fst e \<and> fst e \<le> hi) m"
        by (simp add: lbm iter_range_def le)
      with True False lo le show ?thesis
        by (simp add: lower_bound_def upper_bound_def iter_range_def Suc_diff_le)
    next
      case hi: False
      with above have "\<forall>x\<in>set m. \<not> fst x \<le> hi" by auto
      then have "filter (\<lambda>e. lo \<le> fst e \<and> fst e \<le> hi) m = []" by (simp add: filter_empty_conv)
      with hi False show ?thesis
        by (simp add: lower_bound_def upper_bound_def iter_range_def)
    qed
  qed
qed

lemma parent_range_keys:
  "((parent :: int, 0 :: int) \<le> k \<and> k \<le> (parent, int_wrap32 9999999999)) \<longleftrightarrow>
     (fst k = parent \<and> 0 \<le> snd k \<and> snd k \<le> 1410065407)"
  by (cases k) (auto simp: int_wrap32_def)

lemma hd_lower_bound_range:
  assumes "iter_range (lower_bound lo m) up = Some its" "its \<noteq> []"
  shows "hd (lower_bound lo m) = hd its"
  using assms by (auto simp: iter_range_def split: if_splits)

lemma data_access_parent_int_sorted:
  assumes loaded: "data st \<noteq> []" and sorted: "sorted_keys (data st)"
    and recs: "recs = filter (\<lambda>e. fst (fst e) = parent \<and> 0 \<le> snd (fst e) \<and> snd (fst e) \<le> 1410065407)
                        (data st)"
  shows "data_access_parent_int load_data data ds st parent valoffset =
           Some (Inr (map (\<lambda>it. valoffset (snd (hd recs))) recs, st))"
proof -
  have r: "iter_range (lower_bound (parent, 0) (data st))
             (upper_bound (parent, int_wrap32 9999999999) (data st)) = Some recs"
    unfolding recs iter_range_sorted [OF sorted parent_bounds_ordered] parent_range_keys ..
  have "map (\<lambda>it. valoffset (snd (hd (lower_bound (parent, 0) (data st))))) recs
          = map (\<lambda>it. valoffset (snd (hd recs))) recs"
  proof (cases "recs = []")
    case True
    then show ?thesis by simp
  next
    case False
    from hd_lower_bound_range [OF r False] show ?thesis by simp
  qed
  with loaded r show ?thesis
    by (subst data_access_parent_int.simps) (simp add: Let_def)
qed

lemma pair_up_const:
  "pair_up (map (\<lambda>it. a) xs) (map (\<lambda>it. b) xs) = Some (map (\<lambda>it. (a, b)) xs)"
  by (simp add: pair_up_def map_replicate_const) (rule nth_equalityI, simp_all)

text \<open>
  Claim C10. With the decay table loaded (non-empty, in key order),
  \<open>decay_branch_ratios(parent)\<close> returns the vector of first components of
  \<open>decay_half_lifes(parent)\<close>, element by element. Both have one element per record
  of the parent (daughter between 0 and 1410065407, the \<open>int\<close> that 9999999999
  converts to), and every element is read from the half-life field, respectively the
  half-life and half-life-error fields, of the parent's first record in key order. No
  element comes from the branch-ratio field: overwriting that field in every record of
  the table leaves the result as it is.
\<close>

theorem decay_branch_ratios_read_half_life:
  assumes loaded: "decay_data st \<noteq> []" and sorted: "sorted_keys (decay_data st)"
    and recs: "recs = filter (\<lambda>e. fst (fst e) = parent \<and> 0 \<le> snd (fst e) \<and> snd (fst e) \<le> 1410065407)
                        (decay_data st)"
  shows "\<exists>hl. decay_half_lifes ds st parent = Some (Inr (hl, st)) \<and>
              hl = map (\<lambda>it. (dk_half_life (snd (hd recs)), dk_half_life_error (snd (hd recs)))) recs \<and>
              decay_branch_ratios ds st parent = Some (Inr (map fst hl, st)) \<and>
              map fst hl = map (\<lambda>it. dk_half_life (snd (hd recs))) recs \<and>
              (\<forall>f. map_option (map_sum id fst)
                     (decay_branch_ratios ds
                        (st\<lparr>decay_data :=
                              map (\<lambda>(k, r). (k, r\<lparr>dk_branch_ratio := f k r\<rparr>)) (decay_data st)\<rparr>)
                        parent) = Some (Inr (map fst hl)))"
proof -
  let ?hlf = "dk_half_life (snd (hd recs))" and ?err = "dk_half_life_error (snd (hd recs))"
  let ?hl = "map (\<lambda>it. (?hlf, ?err)) recs"
  have p1: "data_access_parent_int load_data_decay decay_data ds st parent dk_half_life
              = Some (Inr (map (\<lambda>it. ?hlf) recs, st))"
    using loaded sorted recs by (rule data_access_parent_int_sorted)
  have p2: "data_access_parent_int load_data_decay decay_data ds st parent dk_half_life_error
              = Some (Inr (map (\<lambda>it. ?err) recs, st))"
    using loaded sorted recs by (rule data_access_parent_int_sorted)
  have a: "decay_half_lifes ds st parent = Some (Inr (?hl, st))"
    by (simp add: decay_half_lifes_def p1 p2 pair_up_const)
  have fsts: "map fst ?hl = map (\<lambda>it. ?hlf) recs" by (simp add: o_def)
  have b: "decay_branch_ratios ds st parent = Some (Inr (map fst ?hl, st))"
    unfolding fsts by (simp add: decay_branch_ratios_def p1)
  have c: "map_option (map_sum id fst)
             (decay_branch_ratios ds
                (st\<lparr>decay_data := map (\<lambda>(k, r). (k, r\<lparr>dk_branch_ratio := f k r\<rparr>)) (decay_data st)\<rparr>)
                parent) = Some (Inr (map fst ?hl))" for f
  proof -
    let ?g = "\<lambda>(k, r). (k, r\<lparr>dk_branch_ratio := f k r\<rparr>)"
    let ?st = "st\<lparr>decay_data := map ?g (decay_data st)\<rparr>"
    have keys: "fst \<circ> ?g = fst" by (auto simp: fun_eq_iff)
    have ne: "decay_data ?st \<noteq> []" using loaded by simp
    have so: "sorted_keys (decay_data ?st)" using sorted by (simp add: sorted_keys_def keys)
    have recs': "map ?g recs =
        filter (\<lambda>e. fst (fst e) = parent \<and> 0 \<le> snd (fst e) \<and> snd (fst e) \<le> 1410065407)
          (decay_data ?st)"
      unfolding recs by (simp add: filter_map o_def case_prod_beta)
    have "decay_branch_ratios ds ?st parent =
            Some (Inr (map (\<lambda>it. dk_half_life (snd (hd (map ?g recs)))) (map ?g recs), ?st))"
      unfolding decay_branch_ratios_def
      using ne so recs' by (rule data_access_parent_int_sorted [where data = decay_data])
    moreover have "map (\<lambda>it. dk_half_life (snd (hd (map ?g recs)))) (map ?g recs)
                     = map (\<lambda>it. ?hlf) recs"
    proof (cases recs)
      case Nil
      then show ?thesis by simp
    next
      case (Cons e es)
      then show ?thesis by (cases e) (simp add: o_def)
    qed
    ultimately show ?thesis by (simp add: fsts)
  qed
  from a b c fsts show ?thesis by blast
qed

lemma decays_loaded_data:
  "decay_data decays_loaded = map (\<lambda>r. ((dk_parent r, dk_daughter r), r)) example_decays"
  by (simp add: decays_loaded_def)

text \<open>
  The theorem at Cs-137 with the two decay records of the example file loaded: the half
  life of the first record, twice.
\<close>

theorem decay_branch_ratios_read_half_life_witness:
  "decay_half_lifes example_file decays_loaded 551370000 =
     Some (Inr ([(949252608, 2840184), (949252608, 2840184)], decays_loaded)) \<and>
   decay_branch_ratios example_file decays_loaded 551370000 =
     Some (Inr ([949252608, 949252608], decays_loaded)) \<and>
   (\<forall>f. map_option (map_sum id fst)
          (decay_branch_ratios example_file
             (decays_loaded\<lparr>decay_data :=
                map (\<lambda>(k, r). (k, r\<lparr>dk_branch_ratio := f k r\<rparr>)) (decay_data decays_loaded)\<rparr>)
             551370000) = Some (Inr [949252608, 949252608]))"
proof -
  have ne: "decay_data decays_loaded \<noteq> []"
    by (simp add: decays_loaded_data example_decays_def)
  have so: "sorted_keys (decay_data decays_loaded)"
    by (simp add: decays_loaded_data example_decays_def sorted_keys_def)
  have recs: "decay_data decays_loaded =
      filter (\<lambda>e. fst (fst e) = 551370000 \<and> 0 \<le> snd (fst e) \<and> snd (fst e) \<le> 1410065407)
        (decay_data decays_loaded)"
    by (simp add: decays_loaded_data example_decays_def)
  from decay_branch_ratios_read_half_life [OF ne so recs, of example_file]
  show ?thesis by (simp add: decays_loaded_data example_decays_def)
qed

text \<open>There the result is the half life of the first record, once per record.\<close>

lemma decay_branch_ratios_example:
  "decay_branch_ratios example_file decays_loaded 551370000 =
     Some (Inr ([949252608, 949252608], decays_loaded))"
  unfolding decay_branch_ratios_def
  by (subst data_access_parent_int.simps)
     (simp add: decays_loaded_def example_decays_def lower_bound_def upper_bound_def
        iter_range_def int_wrap32_def)

subsection \<open>Gamma lines of a parent\<close>

lemma data_access_gamma_loaded:
  "data_access_parent_double int_DBL_MAX load_data_gamma gamma_data example_file gammas_loaded
     270600000 sel =
   Some (Inr (if int_DBL_MAX < 270600000 then []
              else [sel (hd example_gammas), sel (hd example_gammas)], gammas_loaded))"
  by (subst data_access_parent_double.simps)
     (simp add: gammas_loaded_def example_gammas_def lower_bound_def upper_bound_def iter_range_def)

lemma data_access_gamma_fresh:
  "data_access_parent_double int_DBL_MAX load_data_gamma gamma_data example_file empty_caches
     270600000 sel =
   Some (Inr (if int_DBL_MAX < 270600000 then []
              else [sel (hd example_gammas), sel (hd example_gammas)], gammas_loaded))"
  by (subst data_access_parent_double.simps)
     (simp add: empty_caches_fields load_gamma_example data_access_gamma_loaded
        lower_bound_def upper_bound_def iter_range_def)

text \<open>
  Claim C1. For a parent with N loaded gamma lines, \<open>gamma_energy(parent)\<close> should return
  the N pairs (energy, energy error) of that parent's records in key order. The code
  does not: with the two Co-60 lines of the example file loaded (1173.228 and 1332.492
  keV), \<open>gamma_energy(270600000)\<close> returns the first record's pair twice, or nothing at
  all when \<open>DBL_MAX\<close> converts to an \<open>int\<close> below the parent's id. The bounds of the
  range carry the parent in the energy component of the key, and the loop reads the
  entry at the lower bound on every round.
\<close>

theorem gamma_energy_repeats_first_record:
  "gamma_energy int_DBL_MAX example_file empty_caches 270600000 =
     Some (Inr (if int_DBL_MAX < 270600000 then []
                else [(1173228 / 1000, 3 / 1000), (1173228 / 1000, 3 / 1000)], gammas_loaded))"
  by (simp add: gamma_energy_def data_access_gamma_fresh data_access_gamma_loaded pair_up_def
      example_gammas_def)

end
